theory Spec2Isabelle
  imports Complex_Main "HOL-Library.AList"
begin

section \<open>The alert delivery engine of scripts/alert\_manager.py\<close>

text \<open>
  A shallow embedding of the class \<open>AlertManager\<close>. Python objects that are mutated in
  place are passed in and returned updated; dictionaries whose order matters are
  association lists (\<open>AList.update\<close> keeps the position of an existing key and appends a
  new one, as a Python dict does); a raised exception is the \<open>Inl\<close> of a sum or a
  \<open>Some\<close> beside the state the raise leaves behind. A Python \<open>float\<close> is an IEEE 754
  double with its rounding, a \<open>datetime\<close> the number of microseconds since
  0001-01-01 00:00:00.
\<close>

subsection \<open>Python floats\<close>

text \<open>
  A \<open>float\<close> is a binary64 value: a real that has a 53-bit significand, an infinity or
  a NaN (the sign of zero plays no part in the engine). \<open>to_float\<close> rounds a real to
  the nearest double, ties to the even significand, as the parser does for a literal
  and \<open>+\<close> does for a sum: below \<open>2 ^ -1022\<close> the spacing is \<open>2 ^ -1074\<close>, and a result
  that reaches \<open>2 ^ 1024\<close> is an infinity.
\<close>

datatype pyfloat = Finite real | PosInf | NegInf | NaN

definition round_half_even :: "real \<Rightarrow> int" where
  "round_half_even q =
     (let f = \<lfloor>q\<rfloor>; r = q - of_int f
      in if r < 1 / 2 then f else if r > 1 / 2 then f + 1
         else if even f then f else f + 1)"

text \<open>
  The binary exponent of a positive real, between \<open>-1022\<close> and \<open>1023\<close>: the search runs
  down from \<open>1023\<close> to the first power of two that is not above \<open>x\<close>.
\<close>

fun exponent_from :: "nat \<Rightarrow> real \<Rightarrow> int" where
  "exponent_from 0 x = - 1022"
| "exponent_from (Suc n) x =
     (if 2 powi (int n - 1021) \<le> x then int n - 1021 else exponent_from n x)"

definition exponent :: "real \<Rightarrow> int" where
  "exponent x = exponent_from 2045 x"

definition round_pos :: "real \<Rightarrow> pyfloat" where
  "round_pos x =
     (let ulp = 2 powi (exponent x - 52);
          v = of_int (round_half_even (x / ulp)) * ulp
      in if v \<ge> 2 powi 1024 then PosInf else Finite v)"

fun float_neg :: "pyfloat \<Rightarrow> pyfloat" where
  "float_neg (Finite x) = Finite (- x)"
| "float_neg PosInf = NegInf"
| "float_neg NegInf = PosInf"
| "float_neg NaN = NaN"

definition to_float :: "real \<Rightarrow> pyfloat" where
  "to_float x =
     (if x = 0 then Finite 0 else if x > 0 then round_pos x else float_neg (round_pos (- x)))"

text \<open>\<open>a + b\<close> on floats.\<close>

fun float_add :: "pyfloat \<Rightarrow> pyfloat \<Rightarrow> pyfloat" where
  "float_add (Finite x) (Finite y) = to_float (x + y)"
| "float_add NaN b = NaN"
| "float_add a NaN = NaN"
| "float_add PosInf NegInf = NaN"
| "float_add NegInf PosInf = NaN"
| "float_add PosInf b = PosInf"
| "float_add a PosInf = PosInf"
| "float_add NegInf b = NegInf"
| "float_add a NegInf = NegInf"

text \<open>\<open>a <= b\<close> and \<open>a >= b\<close> on floats: every comparison with a NaN is false.\<close>

fun float_le :: "pyfloat \<Rightarrow> pyfloat \<Rightarrow> bool" where
  "float_le NaN b = False"
| "float_le a NaN = False"
| "float_le NegInf b = True"
| "float_le a PosInf = True"
| "float_le (Finite x) (Finite y) = (x \<le> y)"
| "float_le a b = False"

definition float_ge :: "pyfloat \<Rightarrow> pyfloat \<Rightarrow> bool" where
  "float_ge a b = float_le b a"

subsection \<open>Data model\<close>

datatype AlertChannel = EMAIL | SMS | TELEGRAM | SLACK | WEBSOCKET | PUSH

text \<open>The \<open>.value\<close> of an enum member.\<close>

fun channel_value :: "AlertChannel \<Rightarrow> string" where
  "channel_value EMAIL = ''email''"
| "channel_value SMS = ''sms''"
| "channel_value TELEGRAM = ''telegram''"
| "channel_value SLACK = ''slack''"
| "channel_value WEBSOCKET = ''websocket''"
| "channel_value PUSH = ''push''"

text \<open>
  \<open>config\<close> is a \<open>Dict[str, str]\<close> whose values \<open>create_alert\<close> fills from
  \<open>preferences.get(...)\<close>, so a value may be Python's \<open>None\<close>.
\<close>

record AlertChannelConfig =
  channel :: AlertChannel
  enabled :: bool
  config :: "(string \<times> string option) list"

record Alert =
  alert_id :: string
  investor_id :: string
  opportunity_id :: string
  title :: string
  description :: string
  match_score :: pyfloat
  timestamp :: int
  expires_at :: int
  priority :: string
  status :: string
  notification_attempts :: int
  channels :: "AlertChannelConfig list"
  delivery_status :: "(string \<times> string) list"
  retry_count :: "(string \<times> int) list"

datatype exn = KeyError string | OverflowError

text \<open>\<open>d.get(k, default)\<close> and \<open>d[k]\<close> on an association list.\<close>

definition dict_get :: "('k \<times> 'v) list \<Rightarrow> 'k \<Rightarrow> 'v \<Rightarrow> 'v" where
  "dict_get d k dflt = (case map_of d k of None \<Rightarrow> dflt | Some v \<Rightarrow> v)"

definition dict_item :: "(string \<times> 'v) list \<Rightarrow> string \<Rightarrow> exn + 'v" where
  "dict_item d k = (case map_of d k of None \<Rightarrow> Inl (KeyError k) | Some v \<Rightarrow> Inr v)"

text \<open>
  The opportunity is a \<open>Dict\<close>; each key the engine reads is a field, \<open>None\<close> when the
  key is absent.
\<close>

record Opportunity =
  opp_id :: "string option"
  opp_name :: "string option"
  opp_sector :: "string option"
  opp_investment_amount :: "pyfloat option"
  opp_location :: "string option"
  opp_deal_type :: "string option"
  opp_urgent :: "bool option"
  opp_competitive_situation :: "bool option"

definition opp_item :: "string \<Rightarrow> 'v option \<Rightarrow> exn + 'v" where
  "opp_item k field = (case field of None \<Rightarrow> Inl (KeyError k) | Some v \<Rightarrow> Inr v)"

subsection \<open>Priority scoring\<close>

text \<open>
  \<open>0.2\<close>, \<open>0.1\<close>, \<open>0.9\<close>, \<open>0.7\<close> and \<open>0.5\<close> are float literals, \<open>10000000\<close> is an \<open>int\<close>
  that the comparison reads exactly.
\<close>

definition calculate_priority :: "pyfloat \<Rightarrow> Opportunity \<Rightarrow> exn + string" where
  "calculate_priority score opportunity =
     (let priority_score = score;
          priority_score = (if (case opp_urgent opportunity of None \<Rightarrow> False | Some u \<Rightarrow> u)
                            then float_add priority_score (to_float 0.2) else priority_score)
      in case opp_item ''investment_amount'' (opp_investment_amount opportunity) of
           Inl e \<Rightarrow> Inl e
         | Inr amount \<Rightarrow>
             (let priority_score = (if float_ge amount (Finite 10000000)
                                    then float_add priority_score (to_float 0.1)
                                    else priority_score);
                  priority_score =
                    (if (case opp_competitive_situation opportunity of
                           None \<Rightarrow> False | Some c \<Rightarrow> c)
                     then float_add priority_score (to_float 0.1) else priority_score)
              in if float_ge priority_score (to_float 0.9) then Inr ''urgent''
                 else if float_ge priority_score (to_float 0.7) then Inr ''high''
                 else if float_ge priority_score (to_float 0.5) then Inr ''medium''
                 else Inr ''low''))"


text \<open>
  The score the specification describes: the match score plus the boosts, each
  addition a float addition in the order of the source, and its bucket.
\<close>

definition boosted_score :: "pyfloat \<Rightarrow> bool \<Rightarrow> pyfloat \<Rightarrow> bool \<Rightarrow> pyfloat" where
  "boosted_score score urgent amount competitive =
     (let s = (if urgent then float_add score (to_float 0.2) else score);
          s = (if float_ge amount (Finite 10000000) then float_add s (to_float 0.1) else s)
      in if competitive then float_add s (to_float 0.1) else s)"

definition bucket :: "pyfloat \<Rightarrow> string" where
  "bucket s = (if float_ge s (to_float 0.9) then ''urgent''
               else if float_ge s (to_float 0.7) then ''high''
               else if float_ge s (to_float 0.5) then ''medium'' else ''low'')"

subsection \<open>The manager and the outside world\<close>

text \<open>
  Alert preferences are a JSON \<open>Dict\<close> per investor; each key \<open>create_alert\<close> reads is a
  field, \<open>None\<close> when the key is absent (what \<open>preferences.get(key)\<close> returns).
\<close>

record Preferences =
  pref_channels :: "string list option"
  pref_email :: "string option"
  pref_phone :: "string option"
  pref_telegram_chat_id :: "string option"
  pref_slack_channel :: "string option"
  pref_device_token :: "string option"

definition empty_preferences :: Preferences where
  "empty_preferences =
     \<lparr>pref_channels = None, pref_email = None, pref_phone = None,
      pref_telegram_chat_id = None, pref_slack_channel = None, pref_device_token = None\<rparr>"

text \<open>
  \<open>self.alerts\<close> maps an alert's id to the alert: every insertion in the source is
  \<open>self.alerts[alert.id] = alert\<close>. It is the list of its values in insertion order,
  looked up by \<open>alert_id\<close>. \<open>files\<close> is the directory \<open>data/alerts\<close>: the document last
  written to \<open><id>.json\<close>. \<open>tick\<close> counts the transport attempts made so far; the
  outcome of attempt number \<open>n\<close> is \<open>net n\<close>, given by the environment. A sender catches
  every exception of its transport and returns \<open>False\<close>, so one boolean per attempt is
  all the engine sees. Writes to \<open>data/alerts\<close> are taken to succeed.
\<close>

record AlertManager =
  email_config :: "(string \<times> string) list"
  alerts :: "Alert list"
  alert_preferences :: "(string \<times> Preferences) list"
  websocket_connections :: "(string \<times> nat list) list"
  files :: "string \<rightharpoonup> Alert"
  tick :: nat

type_synonym network = "nat \<Rightarrow> bool"

definition attempt :: "network \<Rightarrow> AlertManager \<Rightarrow> bool \<times> AlertManager" where
  "attempt net m = (net (tick m), m\<lparr>tick := tick m + 1\<rparr>)"

definition lookup_alert :: "Alert list \<Rightarrow> string \<Rightarrow> Alert option" where
  "lookup_alert al k = find (\<lambda>a. alert_id a = k) al"

text \<open>\<open>self.alerts[alert.id] = alert\<close>, also the write-back of an alert mutated in place.\<close>

fun put_alert :: "Alert \<Rightarrow> Alert list \<Rightarrow> Alert list" where
  "put_alert a [] = [a]"
| "put_alert a (b # bs) = (if alert_id b = alert_id a then a # bs else b # put_alert a bs)"

definition save_alert :: "Alert \<Rightarrow> AlertManager \<Rightarrow> AlertManager" where
  "save_alert alert m = m\<lparr>files := (files m)(alert_id alert \<mapsto> alert)\<rparr>"

subsection \<open>Channel senders\<close>

text \<open>
  \<open>send_alert_email\<close> reads five keys of \<open>email_config\<close> before it calls the SMTP client;
  a missing key is a \<open>KeyError\<close> inside its \<open>try\<close>, so it returns \<open>False\<close> without an
  attempt. After a successful send it marks the alert sent and saves it.
\<close>

definition send_alert_email ::
  "network \<Rightarrow> Alert \<Rightarrow> string option \<Rightarrow> string \<Rightarrow> AlertManager \<Rightarrow> bool \<times> Alert \<times> AlertManager" where
  "send_alert_email net alert investor_email view_url m =
     (if \<exists>k \<in> set [''sender'', ''smtp_server'', ''smtp_port'', ''username'', ''password''].
           map_of (email_config m) k = None
      then (False, alert, m)
      else (let (sent, m) = attempt net m
            in if sent
               then (let alert = alert\<lparr>status := ''sent'',
                                        notification_attempts := notification_attempts alert + 1\<rparr>
                     in (True, alert, save_alert alert m))
               else (False, alert, m)))"

definition send_alert_sms ::
  "network \<Rightarrow> Alert \<Rightarrow> string option \<Rightarrow> AlertManager \<Rightarrow> bool \<times> AlertManager" where
  "send_alert_sms net alert phone_number m = attempt net m"

definition send_alert_telegram ::
  "network \<Rightarrow> Alert \<Rightarrow> string option \<Rightarrow> AlertManager \<Rightarrow> bool \<times> AlertManager" where
  "send_alert_telegram net alert chat_id m = attempt net m"

definition send_alert_slack ::
  "network \<Rightarrow> Alert \<Rightarrow> string option \<Rightarrow> AlertManager \<Rightarrow> bool \<times> AlertManager" where
  "send_alert_slack net alert chan m = attempt net m"

text \<open>One \<open>connection.send\<close> per registered connection; the first that raises ends the loop.\<close>

fun send_to_connections :: "network \<Rightarrow> nat list \<Rightarrow> AlertManager \<Rightarrow> bool \<times> AlertManager" where
  "send_to_connections net [] m = (True, m)"
| "send_to_connections net (c # cs) m =
     (let (ok, m) = attempt net m
      in if ok then send_to_connections net cs m else (False, m))"

definition send_alert_websocket ::
  "network \<Rightarrow> Alert \<Rightarrow> string option \<Rightarrow> AlertManager \<Rightarrow> bool \<times> AlertManager" where
  "send_alert_websocket net alert connection_id m =
     (case connection_id of
        None \<Rightarrow> (False, m)
      | Some cid \<Rightarrow>
          (case map_of (websocket_connections m) cid of
             None \<Rightarrow> (False, m)
           | Some conns \<Rightarrow> send_to_connections net conns m))"

definition send_push_notification ::
  "network \<Rightarrow> Alert \<Rightarrow> string option \<Rightarrow> AlertManager \<Rightarrow> bool \<times> AlertManager" where
  "send_push_notification net alert device_token m = attempt net m"

subsection \<open>Dispatch\<close>

text \<open>
  The \<open>if/elif\<close> ladder inside the \<open>try\<close> of \<open>send_alert\<close>: \<open>Inl\<close> is the exception the
  \<open>except\<close> clause receives (a key missing from the channel's \<open>config\<close>).
\<close>

definition send_alert_channel ::
  "network \<Rightarrow> AlertChannelConfig \<Rightarrow> Alert \<Rightarrow> string option \<Rightarrow> string \<Rightarrow> AlertManager
     \<Rightarrow> (exn + bool) \<times> Alert \<times> AlertManager" where
  "send_alert_channel net channel_config alert investor_email view_url m =
     (case channel channel_config of
        EMAIL \<Rightarrow>
          (let (success, alert, m) = send_alert_email net alert investor_email view_url m
           in (Inr success, alert, m))
      | SMS \<Rightarrow>
          (case dict_item (config channel_config) ''phone'' of
             Inl e \<Rightarrow> (Inl e, alert, m)
           | Inr phone \<Rightarrow>
               (let (success, m) = send_alert_sms net alert phone m in (Inr success, alert, m)))
      | TELEGRAM \<Rightarrow>
          (case dict_item (config channel_config) ''chat_id'' of
             Inl e \<Rightarrow> (Inl e, alert, m)
           | Inr chat_id \<Rightarrow>
               (let (success, m) = send_alert_telegram net alert chat_id m
                in (Inr success, alert, m)))
      | SLACK \<Rightarrow>
          (case dict_item (config channel_config) ''channel'' of
             Inl e \<Rightarrow> (Inl e, alert, m)
           | Inr chan \<Rightarrow>
               (let (success, m) = send_alert_slack net alert chan m in (Inr success, alert, m)))
      | WEBSOCKET \<Rightarrow>
          (case dict_item (config channel_config) ''connection_id'' of
             Inl e \<Rightarrow> (Inl e, alert, m)
           | Inr connection_id \<Rightarrow>
               (let (success, m) = send_alert_websocket net alert connection_id m
                in (Inr success, alert, m)))
      | PUSH \<Rightarrow>
          (case dict_item (config channel_config) ''device_token'' of
             Inl e \<Rightarrow> (Inl e, alert, m)
           | Inr device_token \<Rightarrow>
               (let (success, m) = send_push_notification net alert device_token m
                in (Inr success, alert, m))))"

text \<open>One iteration of the loop of \<open>send_alert\<close> over \<open>alert.channels\<close>.\<close>

definition send_alert_step ::
  "network \<Rightarrow> string option \<Rightarrow> string \<Rightarrow> AlertChannelConfig
     \<Rightarrow> (string \<times> bool) list \<times> Alert \<times> AlertManager
     \<Rightarrow> (string \<times> bool) list \<times> Alert \<times> AlertManager" where
  "send_alert_step net investor_email view_url channel_config = (\<lambda>(results, alert, m).
     if \<not> enabled channel_config then (results, alert, m)
     else
       (let name = channel_value (channel channel_config)
        in case send_alert_channel net channel_config alert investor_email view_url m of
             (Inr success, alert, m) \<Rightarrow>
               (let results = AList.update name success results;
                    alert = alert\<lparr>delivery_status :=
                              AList.update name (if success then ''delivered'' else ''failed'')
                                (delivery_status alert)\<rparr>;
                    alert = (if \<not> success
                             then alert\<lparr>retry_count :=
                                    AList.update name (dict_get (retry_count alert) name 0 + 1)
                                      (retry_count alert)\<rparr>
                             else alert)
                in (results, alert, m))
           | (Inl e, alert, m) \<Rightarrow>
               (AList.update name False results,
                alert\<lparr>delivery_status := AList.update name ''error'' (delivery_status alert)\<rparr>,
                m)))"

definition send_alert ::
  "network \<Rightarrow> Alert \<Rightarrow> string option \<Rightarrow> string \<Rightarrow> AlertManager
     \<Rightarrow> (string \<times> bool) list \<times> Alert \<times> AlertManager" where
  "send_alert net alert investor_email view_url m =
     (let (results, alert, m) =
            fold (send_alert_step net investor_email view_url) (channels alert) ([], alert, m)
      in (results, alert, save_alert alert m))"

subsection \<open>Processing pending alerts\<close>

record ProcessResult =
  res_alert_id :: string
  res_investor_id :: string
  res_success :: "(string \<times> bool) list"

text \<open>
  The loop of \<open>process_pending_alerts\<close> over \<open>self.alerts.values()\<close>; each alert is
  mutated in place, so the loop returns the values as they are afterwards.
\<close>

fun process_alerts ::
  "network \<Rightarrow> (string \<Rightarrow> string option) \<Rightarrow> int \<Rightarrow> Alert list \<Rightarrow> AlertManager
     \<Rightarrow> ProcessResult list \<times> Alert list \<times> AlertManager" where
  "process_alerts net get_investor_email_func current_time [] m = ([], [], m)"
| "process_alerts net get_investor_email_func current_time (alert # rest) m =
     (if status alert = ''pending'' \<and> expires_at alert > current_time
      then
        (let investor_email = get_investor_email_func (investor_id alert);
             view_url = ''https://yourplatform.com/opportunities/'' @ opportunity_id alert;
             (success, alert', m) = send_alert net alert investor_email view_url m;
             (results, rest', m) = process_alerts net get_investor_email_func current_time rest m
         in (\<lparr>res_alert_id = alert_id alert, res_investor_id = investor_id alert,
               res_success = success\<rparr> # results,
             alert' # rest', m))
      else
        (let (results, rest', m) = process_alerts net get_investor_email_func current_time rest m
         in (results, alert # rest', m)))"

definition process_pending_alerts ::
  "network \<Rightarrow> (string \<Rightarrow> string option) \<Rightarrow> int \<Rightarrow> AlertManager
     \<Rightarrow> ProcessResult list \<times> AlertManager" where
  "process_pending_alerts net get_investor_email_func current_time m =
     (let (results, al, m) = process_alerts net get_investor_email_func current_time (alerts m) m
      in (results, m\<lparr>alerts := al\<rparr>))"

subsection \<open>Marking read and expiring\<close>

definition mark_alert_read :: "string \<Rightarrow> AlertManager \<Rightarrow> AlertManager" where
  "mark_alert_read k m =
     (case lookup_alert (alerts m) k of
        None \<Rightarrow> m
      | Some alert \<Rightarrow>
          (let alert = alert\<lparr>status := ''read''\<rparr>
           in save_alert alert (m\<lparr>alerts := put_alert alert (alerts m)\<rparr>)))"

text \<open>
  The body of the second loop of \<open>cleanup_expired_alerts\<close>: \<open>self.alerts[alert_id]\<close>, the
  status write and the save. The id comes from \<open>self.alerts\<close> itself, so the lookup
  cannot raise.
\<close>

definition expire_alert :: "string \<Rightarrow> AlertManager \<Rightarrow> AlertManager" where
  "expire_alert k m =
     (case lookup_alert (alerts m) k of
        None \<Rightarrow> m
      | Some alert \<Rightarrow>
          (let alert = alert\<lparr>status := ''expired''\<rparr>
           in save_alert alert (m\<lparr>alerts := put_alert alert (alerts m)\<rparr>)))"

definition cleanup_expired_alerts :: "int \<Rightarrow> AlertManager \<Rightarrow> AlertManager" where
  "cleanup_expired_alerts current_time m =
     (let expired_alerts =
            map alert_id (filter (\<lambda>alert. expires_at alert < current_time) (alerts m))
      in fold expire_alert expired_alerts m)"

subsection \<open>Retrying failed channels\<close>

text \<open>
  The ladder of \<open>retry_failed_alerts\<close>. It is not inside a \<open>try\<close>: \<open>Inl\<close> is a \<open>KeyError\<close>
  that leaves \<open>retry_failed_alerts\<close>.
\<close>

definition retry_channel ::
  "network \<Rightarrow> AlertChannelConfig \<Rightarrow> Alert \<Rightarrow> AlertManager
     \<Rightarrow> (exn + bool) \<times> Alert \<times> AlertManager" where
  "retry_channel net chan alert m =
     (case channel chan of
        EMAIL \<Rightarrow>
          (case dict_item (config chan) ''email'' of
             Inl e \<Rightarrow> (Inl e, alert, m)
           | Inr email \<Rightarrow>
               (let (success, alert, m) =
                      send_alert_email net alert email
                        (''https://yourplatform.com/opportunities/'' @ opportunity_id alert) m
                in (Inr success, alert, m)))
      | SMS \<Rightarrow>
          (case dict_item (config chan) ''phone'' of
             Inl e \<Rightarrow> (Inl e, alert, m)
           | Inr phone \<Rightarrow>
               (let (success, m) = send_alert_sms net alert phone m in (Inr success, alert, m)))
      | TELEGRAM \<Rightarrow>
          (case dict_item (config chan) ''chat_id'' of
             Inl e \<Rightarrow> (Inl e, alert, m)
           | Inr chat_id \<Rightarrow>
               (let (success, m) = send_alert_telegram net alert chat_id m
                in (Inr success, alert, m)))
      | SLACK \<Rightarrow>
          (case dict_item (config chan) ''channel'' of
             Inl e \<Rightarrow> (Inl e, alert, m)
           | Inr slack_channel \<Rightarrow>
               (let (success, m) = send_alert_slack net alert slack_channel m
                in (Inr success, alert, m)))
      | WEBSOCKET \<Rightarrow>
          (case dict_item (config chan) ''connection_id'' of
             Inl e \<Rightarrow> (Inl e, alert, m)
           | Inr connection_id \<Rightarrow>
               (let (success, m) = send_alert_websocket net alert connection_id m
                in (Inr success, alert, m)))
      | PUSH \<Rightarrow>
          (case dict_item (config chan) ''device_token'' of
             Inl e \<Rightarrow> (Inl e, alert, m)
           | Inr device_token \<Rightarrow>
               (let (success, m) = send_push_notification net alert device_token m
                in (Inr success, alert, m))))"

text \<open>The inner loop over \<open>alert.channels\<close>; \<open>Some e\<close> is the exception that ended it.\<close>

fun retry_channels ::
  "network \<Rightarrow> AlertChannelConfig list \<Rightarrow> Alert \<Rightarrow> AlertManager
     \<Rightarrow> exn option \<times> Alert \<times> AlertManager" where
  "retry_channels net [] alert m = (None, alert, m)"
| "retry_channels net (chan # rest) alert m =
     (let channel_name = channel_value (channel chan)
      in if map_of (delivery_status alert) channel_name \<in> {Some ''failed'', Some ''error''}
            \<and> dict_get (retry_count alert) channel_name 0 < 3
         then
           (case retry_channel net chan alert m of
              (Inl e, alert, m) \<Rightarrow> (Some e, alert, m)
            | (Inr success, alert, m) \<Rightarrow>
                (let alert =
                       (if success
                        then alert\<lparr>delivery_status :=
                               AList.update channel_name ''delivered'' (delivery_status alert)\<rparr>
                        else alert\<lparr>retry_count :=
                               AList.update channel_name
                                 (dict_get (retry_count alert) channel_name 0 + 1)
                                 (retry_count alert)\<rparr>)
                 in retry_channels net rest alert (save_alert alert m)))
         else retry_channels net rest alert m)"

text \<open>The outer loop over \<open>self.alerts.values()\<close>.\<close>

fun retry_alerts ::
  "network \<Rightarrow> Alert list \<Rightarrow> AlertManager \<Rightarrow> exn option \<times> Alert list \<times> AlertManager" where
  "retry_alerts net [] m = (None, [], m)"
| "retry_alerts net (alert # rest) m =
     (case retry_channels net (channels alert) alert m of
        (Some e, alert', m) \<Rightarrow> (Some e, alert' # rest, m)
      | (None, alert', m) \<Rightarrow>
          (let (e, rest', m) = retry_alerts net rest m in (e, alert' # rest', m)))"

definition retry_failed_alerts ::
  "network \<Rightarrow> AlertManager \<Rightarrow> exn option \<times> AlertManager" where
  "retry_failed_alerts net m =
     (let (e, al, m) = retry_alerts net (alerts m) m in (e, m\<lparr>alerts := al\<rparr>))"

subsection \<open>Creating an alert\<close>

text \<open>
  Text that HOL strings do not hold is taken from the environment: the glyph
  \<open>sector_emoji.get(key, default)\<close> returns, \<open>str.lower\<close>, and the rendering of the amount
  with its currency sign (\<open>{amount:,.2f}\<close>).
\<close>

record Rendering =
  emoji_of :: "string \<Rightarrow> string"
  lower :: "string \<Rightarrow> string"
  fmt_amount :: "pyfloat \<Rightarrow> string"

text \<open>
  \<open>additional_data\<close>: the three keys the description reads, \<open>None\<close> when absent, their
  values already rendered as text.
\<close>

record AdditionalData =
  key_metrics :: "(string \<times> string) list option"
  competitive_advantages :: "string list option"
  team_highlights :: "string list option"

record InvestorProfile =
  profile_id :: string

definition newline :: string where
  "newline = [CHR 0x0A]"

definition indent :: string where
  "indent = replicate 25 CHR '' ''"

definition bullets :: "string list \<Rightarrow> string" where
  "bullets xs = concat (map (\<lambda>x. newline @ ''- '' @ x) xs)"

definition generate_enhanced_description ::
  "Rendering \<Rightarrow> Opportunity \<Rightarrow> pyfloat \<Rightarrow> AdditionalData option \<Rightarrow> exn + string" where
  "generate_enhanced_description R opportunity score additional_data =
     (case opp_item ''name'' (opp_name opportunity) of Inl e \<Rightarrow> Inl e | Inr name \<Rightarrow>
     (case opp_item ''sector'' (opp_sector opportunity) of Inl e \<Rightarrow> Inl e | Inr sector \<Rightarrow>
     (case opp_item ''investment_amount'' (opp_investment_amount opportunity) of
        Inl e \<Rightarrow> Inl e | Inr amount \<Rightarrow>
     (case opp_item ''location'' (opp_location opportunity) of Inl e \<Rightarrow> Inl e | Inr location \<Rightarrow>
     (case opp_item ''deal_type'' (opp_deal_type opportunity) of Inl e \<Rightarrow> Inl e | Inr deal_type \<Rightarrow>
        (let text = ''Exclusive opportunity matching your investment profile:'' @ newline
                    @ indent @ name @ '' ('' @ sector @ '')'' @ newline
                    @ indent @ ''Investment range: '' @ fmt_amount R amount @ newline
                    @ indent @ ''Location: '' @ location @ newline
                    @ indent @ ''Deal type: '' @ deal_type
         in case additional_data of
              None \<Rightarrow> Inr text
            | Some extra \<Rightarrow>
                (let text = (case key_metrics extra of
                               None \<Rightarrow> text
                             | Some metrics \<Rightarrow>
                                 text @ newline @ newline @ ''Key Metrics:''
                                 @ bullets (map (\<lambda>(metric, v). metric @ '': '' @ v) metrics));
                     text = (case competitive_advantages extra of
                               None \<Rightarrow> text
                             | Some advantages \<Rightarrow>
                                 text @ newline @ newline @ ''Competitive Advantages:''
                                 @ bullets advantages);
                     text = (case team_highlights extra of
                               None \<Rightarrow> text
                             | Some highlights \<Rightarrow>
                                 text @ newline @ newline @ ''Team Highlights:''
                                 @ bullets highlights)
                 in Inr text)))))))"

definition generate_alert_title :: "Rendering \<Rightarrow> Opportunity \<Rightarrow> exn + string" where
  "generate_alert_title R opportunity =
     (case opp_item ''sector'' (opp_sector opportunity) of Inl e \<Rightarrow> Inl e | Inr sector \<Rightarrow>
     (case opp_item ''name'' (opp_name opportunity) of Inl e \<Rightarrow> Inl e | Inr name \<Rightarrow>
        Inr (emoji_of R (lower R sector) @ '' New '' @ sector
             @ '' Investment Opportunity: '' @ name)))"

text \<open>Decimal digits of a natural number, for the counter inside a new id.\<close>

fun str_of_nat :: "nat \<Rightarrow> string" where
  "str_of_nat n =
     (if n < 10 then [char_of (48 + n)]
      else str_of_nat (n div 10) @ [char_of (48 + n mod 10)])"

declare str_of_nat.simps [simp del]

text \<open>\<open>preferences.get("channels", default)\<close>.\<close>

definition selected_channels :: "Preferences \<Rightarrow> string list \<Rightarrow> string list" where
  "selected_channels preferences dflt =
     (case pref_channels preferences of None \<Rightarrow> dflt | Some cs \<Rightarrow> cs)"

text \<open>
  The first part of \<open>create_alert\<close>, under its comment "Create alert channels based on
  preferences": one \<open>if\<close> per channel kind, each appending to \<open>channels\<close>.
\<close>

definition create_alert_channels ::
  "Preferences \<Rightarrow> InvestorProfile \<Rightarrow> AlertChannelConfig list" where
  "create_alert_channels preferences investor =
     (let chans = [];
          chans = (if ''email'' \<in> set (selected_channels preferences [''email''])
                   then chans @ [\<lparr>channel = EMAIL, enabled = True,
                                   config = [(''email'', pref_email preferences)]\<rparr>]
                   else chans);
          chans = (if ''sms'' \<in> set (selected_channels preferences [])
                   then chans @ [\<lparr>channel = SMS, enabled = True,
                                   config = [(''phone'', pref_phone preferences)]\<rparr>]
                   else chans);
          chans = (if ''telegram'' \<in> set (selected_channels preferences [])
                   then chans @ [\<lparr>channel = TELEGRAM, enabled = True,
                                   config = [(''chat_id'', pref_telegram_chat_id preferences)]\<rparr>]
                   else chans);
          chans = (if ''slack'' \<in> set (selected_channels preferences [])
                   then chans @ [\<lparr>channel = SLACK, enabled = True,
                                   config = [(''channel'', pref_slack_channel preferences)]\<rparr>]
                   else chans);
          chans = (if ''websocket'' \<in> set (selected_channels preferences [])
                   then chans @ [\<lparr>channel = WEBSOCKET, enabled = True,
                                   config = [(''connection_id'', Some (profile_id investor))]\<rparr>]
                   else chans);
          chans = (if ''push'' \<in> set (selected_channels preferences [])
                   then chans @ [\<lparr>channel = PUSH, enabled = True,
                                   config = [(''device_token'', pref_device_token preferences)]\<rparr>]
                   else chans)
      in chans)"

text \<open>
  \<open>timedelta(hours=h)\<close> holds at most 999999999 days either way, and a \<open>datetime\<close> lies
  between 0001-01-01 00:00:00 and 9999-12-31 23:59:59.999999, which is 3652059 days:
  outside either range the constructor or the addition raises \<open>OverflowError\<close>.
\<close>

definition datetime_max :: int where
  "datetime_max = 3652059 * 86400000000"

definition timedelta_hours :: "int \<Rightarrow> exn + int" where
  "timedelta_hours h =
     (if - 999999999 \<le> h div 24 \<and> h div 24 \<le> 999999999 then Inr (h * 3600000000)
      else Inl OverflowError)"

definition datetime_add :: "int \<Rightarrow> int \<Rightarrow> exn + int" where
  "datetime_add t delta =
     (if 0 \<le> t + delta \<and> t + delta < datetime_max then Inr (t + delta)
      else Inl OverflowError)"

text \<open>
  \<open>stamp\<close> is the clock reading formatted into the id; \<open>t_created\<close> and \<open>t_expiry\<close> are the
  two later readings of \<open>datetime.now()\<close>. The arguments of \<open>Alert(...)\<close> are evaluated in
  order, so the lookups and the expiry that can raise all happen before \<open>self.alerts\<close>
  is written: a raise returns no new state.
\<close>

definition create_alert ::
  "Rendering \<Rightarrow> AlertManager \<Rightarrow> InvestorProfile \<Rightarrow> Opportunity \<Rightarrow> pyfloat \<Rightarrow> int
     \<Rightarrow> AdditionalData option \<Rightarrow> string \<Rightarrow> int \<Rightarrow> int \<Rightarrow> exn + (Alert \<times> AlertManager)" where
  "create_alert R m investor opportunity score expiration_hours additional_data
       stamp t_created t_expiry =
     (let preferences = dict_get (alert_preferences m) (profile_id investor) empty_preferences;
          chans = create_alert_channels preferences investor
      in case generate_enhanced_description R opportunity score additional_data of
           Inl e \<Rightarrow> Inl e | Inr text \<Rightarrow>
        (case opp_item ''id'' (opp_id opportunity) of Inl e \<Rightarrow> Inl e | Inr oid \<Rightarrow>
        (case generate_alert_title R opportunity of Inl e \<Rightarrow> Inl e | Inr heading \<Rightarrow>
        (case timedelta_hours expiration_hours of Inl e \<Rightarrow> Inl e | Inr delta \<Rightarrow>
        (case datetime_add t_expiry delta of Inl e \<Rightarrow> Inl e | Inr expiry \<Rightarrow>
        (case calculate_priority score opportunity of Inl e \<Rightarrow> Inl e | Inr prio \<Rightarrow>
           (let alert =
                  \<lparr>alert_id = ''alert_'' @ str_of_nat (length (alerts m) + 1) @ ''_'' @ stamp,
                   investor_id = profile_id investor,
                   opportunity_id = oid,
                   title = heading,
                   description = text,
                   match_score = score,
                   timestamp = t_created,
                   expires_at = expiry,
                   priority = prio,
                   status = ''pending'',
                   notification_attempts = 0,
                   channels = chans,
                   delivery_status = [],
                   retry_count = []\<rparr>;
                m = m\<lparr>alerts := put_alert alert (alerts m)\<rparr>
            in Inr (alert, save_alert alert m))))))))"

text \<open>The expiry a call asks for lies within what \<open>timedelta\<close> and \<open>datetime\<close> hold.\<close>

definition expiry_in_range :: "int \<Rightarrow> int \<Rightarrow> bool" where
  "expiry_in_range t_expiry expiration_hours \<longleftrightarrow>
     - 999999999 \<le> expiration_hours div 24 \<and> expiration_hours div 24 \<le> 999999999
     \<and> 0 \<le> t_expiry + expiration_hours * 3600000000
     \<and> t_expiry + expiration_hours * 3600000000 < datetime_max"

subsection \<open>Repeated sweeps\<close>

text \<open>
  \<open>retry_failed_alerts\<close> run \<open>n\<close> times by its scheduler; a sweep that ended with an
  exception leaves the state it reached to the next one.
\<close>

fun retry_sweeps :: "network \<Rightarrow> nat \<Rightarrow> AlertManager \<Rightarrow> AlertManager" where
  "retry_sweeps net 0 m = m"
| "retry_sweeps net (Suc n) m = retry_sweeps net n (snd (retry_failed_alerts net m))"

subsection \<open>Example inputs\<close>

definition demo_alert :: "AlertChannelConfig list \<Rightarrow> string \<Rightarrow> Alert" where
  "demo_alert chans st =
     \<lparr>alert_id = ''alert_1_20240101000000'', investor_id = ''inv1'', opportunity_id = ''opp1'',
      title = ''New deal'', description = ''Details'', match_score = Finite (3 / 4),
      timestamp = 0,
      expires_at = 172800, priority = ''high'', status = st, notification_attempts = 0,
      channels = chans, delivery_status = [], retry_count = []\<rparr>"

definition demo_manager :: "Alert list \<Rightarrow> AlertManager" where
  "demo_manager al =
     \<lparr>email_config = [(''smtp_server'', ''smtp.example.com''), (''smtp_port'', ''587''),
                      (''username'', ''alerts@example.com''), (''password'', ''secret''),
                      (''sender'', ''alerts@example.com'')],
      alerts = al, alert_preferences = [], websocket_connections = [],
      files = Map.empty, tick = 0\<rparr>"

definition email_channel :: AlertChannelConfig where
  "email_channel =
     \<lparr>channel = EMAIL, enabled = True, config = [(''email'', Some ''ana@example.com'')]\<rparr>"

definition sms_channel :: AlertChannelConfig where
  "sms_channel = \<lparr>channel = SMS, enabled = True, config = [(''phone'', Some ''+351000'')]\<rparr>"

definition sms_channel_no_phone :: AlertChannelConfig where
  "sms_channel_no_phone = \<lparr>channel = SMS, enabled = True, config = []\<rparr>"

definition push_channel :: AlertChannelConfig where
  "push_channel =
     \<lparr>channel = PUSH, enabled = True, config = [(''device_token'', Some ''tok'')]\<rparr>"

definition demo_opportunity :: Opportunity where
  "demo_opportunity =
     \<lparr>opp_id = Some ''opp1'', opp_name = Some ''Acme'', opp_sector = Some ''Technology'',
      opp_investment_amount = Some (Finite 15000000), opp_location = Some ''Lisbon'',
      opp_deal_type = Some ''equity'', opp_urgent = Some True,
      opp_competitive_situation = None\<rparr>"

definition net_up :: network where
  "net_up = (\<lambda>n. True)"

definition net_down :: network where
  "net_down = (\<lambda>n. False)"

definition demo_email_of :: "string \<Rightarrow> string option" where
  "demo_email_of = (\<lambda>investor. Some ''ana@example.com'')"

subsection \<open>Relations between an alert before and after an operation\<close>

text \<open>What a sender may do to the alert: nothing, or the two writes of \<open>send_alert_email\<close>.\<close>

definition touched :: "Alert \<Rightarrow> Alert \<Rightarrow> bool" where
  "touched a a' \<longleftrightarrow>
     a' = a \<or> a' = a\<lparr>status := ''sent'', notification_attempts := notification_attempts a + 1\<rparr>"

text \<open>
  The retry budget of every channel name: a count of at most 3 stays at most 3, and
  the entries of a name whose count has reached 3 are the same.
\<close>

definition budget_kept :: "Alert \<Rightarrow> Alert \<Rightarrow> bool" where
  "budget_kept a a' \<longleftrightarrow>
     (\<forall>k. (dict_get (retry_count a) k 0 \<le> 3 \<longrightarrow> dict_get (retry_count a') k 0 \<le> 3)
        \<and> (3 \<le> dict_get (retry_count a) k 0 \<longrightarrow>
             map_of (delivery_status a') k = map_of (delivery_status a) k
             \<and> map_of (retry_count a') k = map_of (retry_count a) k))"

text \<open>The status writes of the engine: \<open>sent\<close> by a sender, \<open>expired\<close> by the expiry sweep.\<close>

definition sent_or_same :: "Alert \<Rightarrow> Alert \<Rightarrow> bool" where
  "sent_or_same a a' \<longleftrightarrow> status a' = status a \<or> status a' = ''sent''"

definition expired_or_same :: "Alert \<Rightarrow> Alert \<Rightarrow> bool" where
  "expired_or_same a a' \<longleftrightarrow> a' = a \<or> a' = a\<lparr>status := ''expired''\<rparr>"

text \<open>
  The alert stored under \<open>k\<close> is expired and \<open>data/alerts\<close> holds that very document.
\<close>

definition settled :: "string \<Rightarrow> AlertManager \<Rightarrow> bool" where
  "settled k m \<longleftrightarrow>
     (\<exists>a. lookup_alert (alerts m) k = Some a \<and> status a = ''expired'' \<and> files m k = Some a)"

subsection \<open>Further example inputs\<close>

text \<open>One call of \<open>process_pending_alerts\<close> at time 0 while every transport fails.\<close>

definition failing_round :: "AlertManager \<Rightarrow> AlertManager" where
  "failing_round m = snd (process_pending_alerts net_down demo_email_of 0 m)"

text \<open>A pending alert whose SMS channel has failed \<open>n\<close> times.\<close>

definition failed_alert :: "int \<Rightarrow> Alert" where
  "failed_alert n =
     (demo_alert [sms_channel] ''pending'')
       \<lparr>delivery_status := [(''sms'', ''failed'')], retry_count := [(''sms'', n)]\<rparr>"

text \<open>An alert with an email channel that has failed once, in the given status.\<close>

definition failed_email_alert :: "string \<Rightarrow> Alert" where
  "failed_email_alert st =
     (demo_alert [email_channel] st)
       \<lparr>delivery_status := [(''email'', ''failed'')], retry_count := [(''email'', 1)]\<rparr>"

definition second_alert :: "AlertChannelConfig list \<Rightarrow> string \<Rightarrow> Alert" where
  "second_alert chans st = (demo_alert chans st)\<lparr>alert_id := ''alert_2_20240101000500''\<rparr>"

subsection \<open>What the preferences select\<close>



subsection \<open>Example inputs for alert creation\<close>

definition demo_rendering :: Rendering where
  "demo_rendering =
     \<lparr>emoji_of = (\<lambda>sector. ''*''), lower = (\<lambda>s. s), fmt_amount = (\<lambda>x. ''EUR'')\<rparr>"

definition demo_investor :: InvestorProfile where
  "demo_investor = \<lparr>profile_id = ''inv1''\<rparr>"


text \<open>Preferences without a \<open>channels\<close> key that hold an email address.\<close>

definition email_only_preferences :: Preferences where
  "email_only_preferences = empty_preferences\<lparr>pref_email := Some ''ana@example.com''\<rparr>"

definition manager_with :: "(string \<times> Preferences) list \<Rightarrow> AlertManager" where
  "manager_with prefs = (demo_manager [])\<lparr>alert_preferences := prefs\<rparr>"

text \<open>
  A call at 2024-01-01 00:00:00, which is 738885 days after 0001-01-01, asking for an
  expiry \<open>h\<close> hours ahead.
\<close>

definition demo_now :: int where
  "demo_now = 738885 * 86400000000"

definition demo_create_for :: "int \<Rightarrow> AlertManager \<Rightarrow> exn + (Alert \<times> AlertManager)" where
  "demo_create_for h m =
     create_alert demo_rendering m demo_investor demo_opportunity (Finite (3 / 4)) h None
       ''20240101000000'' demo_now demo_now"

definition demo_create :: "AlertManager \<Rightarrow> exn + (Alert \<times> AlertManager)" where
  "demo_create m = demo_create_for 48 m"

subsection \<open>Example opportunities\<close>




text \<open>Every key \<open>create_alert\<close> reads from the opportunity is there.\<close>

definition keys_present :: "Opportunity \<Rightarrow> bool" where
  "keys_present opp \<longleftrightarrow>
     opp_id opp \<noteq> None \<and> opp_name opp \<noteq> None \<and> opp_sector opp \<noteq> None
     \<and> opp_investment_amount opp \<noteq> None \<and> opp_location opp \<noteq> None
     \<and> opp_deal_type opp \<noteq> None"

section \<open>Properties\<close>

subsection \<open>Float rounding is monotone\<close>

lemma round_half_even_bounds:
  "of_int (round_half_even q) \<le> q + 1 / 2" "q - 1 / 2 \<le> of_int (round_half_even q)"
  unfolding round_half_even_def Let_def by (auto, linarith+)

lemma round_half_even_of_int [simp]: "round_half_even (of_int n) = n"
  by (simp add: round_half_even_def)












lemma float_le_refl_finite [simp]: "float_le (Finite x) (Finite x)"
  by simp









lemma round_pos_not_NaN [simp]: "round_pos x \<noteq> NaN"
  by (simp add: round_pos_def Let_def)



lemma to_float_not_NaN [simp]: "to_float x \<noteq> NaN"
  by (simp add: to_float_def round_pos_def Let_def)




subsection \<open>Priority scoring\<close>









lemma float_le_not_NaN: "float_le a b \<Longrightarrow> a \<noteq> NaN \<and> b \<noteq> NaN"
  by (cases a; cases b) auto



lemma flag_eq: "(case f of None \<Rightarrow> False | Some u \<Rightarrow> u) = (f = Some True)"
  by (cases f) auto

lemma calculate_priority_eq:
  "opp_investment_amount opp = Some amount \<Longrightarrow>
   calculate_priority score opp =
     Inr (bucket (boosted_score score (opp_urgent opp = Some True) amount
                    (opp_competitive_situation opp = Some True)))"
  unfolding calculate_priority_def boosted_score_def bucket_def Let_def opp_item_def flag_eq
  by (simp only: option.case sum.case if_distrib [of Inr] cong: if_cong)






subsection \<open>Dispatch\<close>

text \<open>
  C1. A pending alert whose only channel is SMS, dispatched while the SMS gateway
  accepts the message: the channel is recorded as delivered and the status is still
  \<open>pending\<close>. Only \<open>send_alert_email\<close> writes \<open>sent\<close>.
\<close>

theorem send_alert_sms_delivered_still_pending:
  "fst (send_alert net_up (demo_alert [sms_channel] ''pending'') (Some ''ana@example.com'')
          ''https://yourplatform.com/opportunities/opp1'' (demo_manager []))
     = [(''sms'', True)]
   \<and> delivery_status
         (fst (snd (send_alert net_up (demo_alert [sms_channel] ''pending'')
                      (Some ''ana@example.com'')
                      ''https://yourplatform.com/opportunities/opp1'' (demo_manager []))))
       = [(''sms'', ''delivered'')]
   \<and> status
         (fst (snd (send_alert net_up (demo_alert [sms_channel] ''pending'')
                      (Some ''ana@example.com'')
                      ''https://yourplatform.com/opportunities/opp1'' (demo_manager []))))
       = ''pending''"
  by code_simp

text \<open>
  C2. An alert with an SMS channel whose \<open>config\<close> has no \<open>phone\<close> key and a push channel
  that delivers: the \<open>KeyError\<close> is caught, SMS is recorded as \<open>error\<close>, push is still
  attempted and delivered, and \<open>retry_count\<close> has no entry for SMS: the \<open>except\<close> branch
  does not count the attempt.
\<close>

theorem send_alert_exception_not_counted:
  "fst (send_alert net_up (demo_alert [sms_channel_no_phone, push_channel] ''pending'')
          (Some ''ana@example.com'') ''https://yourplatform.com/opportunities/opp1''
          (demo_manager []))
     = [(''sms'', False), (''push'', True)]
   \<and> delivery_status
         (fst (snd (send_alert net_up
                      (demo_alert [sms_channel_no_phone, push_channel] ''pending'')
                      (Some ''ana@example.com'')
                      ''https://yourplatform.com/opportunities/opp1'' (demo_manager []))))
       = [(''sms'', ''error''), (''push'', ''delivered'')]
   \<and> retry_count
         (fst (snd (send_alert net_up
                      (demo_alert [sms_channel_no_phone, push_channel] ''pending'')
                      (Some ''ana@example.com'')
                      ''https://yourplatform.com/opportunities/opp1'' (demo_manager []))))
       = []"
  by code_simp

subsection \<open>Senders and the retry budget\<close>

lemma dict_get_update:
  "dict_get (AList.update k v d) k' dflt = (if k' = k then v else dict_get d k' dflt)"
  by (simp add: dict_get_def update_conv')

lemma send_alert_email_touched:
  "send_alert_email net a e u m = (ok, a', m') \<Longrightarrow>
     touched a a' \<and> (ok \<longrightarrow> status a' = ''sent'') \<and> (\<not> ok \<longrightarrow> a' = a)"
  by (auto simp: send_alert_email_def touched_def Let_def attempt_def split: if_splits prod.splits)

lemma touched_refl: "touched a a"
  by (simp add: touched_def)

lemma send_alert_channel_touched:
  "send_alert_channel net c a e u m = (r, a', m') \<Longrightarrow> touched a a'"
  by (cases "channel c")
     (auto simp: send_alert_channel_def Let_def touched_refl
           split: sum.splits prod.splits dest: send_alert_email_touched)

lemma retry_channel_touched:
  "retry_channel net c a m = (r, a', m') \<Longrightarrow> touched a a'"
  by (cases "channel c")
     (auto simp: retry_channel_def Let_def touched_refl
           split: sum.splits prod.splits dest: send_alert_email_touched)

lemma touched_fields:
  "touched a a' \<Longrightarrow>
     retry_count a' = retry_count a \<and> delivery_status a' = delivery_status a
     \<and> channels a' = channels a \<and> alert_id a' = alert_id a \<and> expires_at a' = expires_at a
     \<and> (status a' = status a \<or> status a' = ''sent'')"
  by (auto simp: touched_def)

lemma budget_kept_refl: "budget_kept a a"
  by (simp add: budget_kept_def)

lemma budget_kept_trans: "budget_kept a b \<Longrightarrow> budget_kept b c \<Longrightarrow> budget_kept a c"
  unfolding budget_kept_def dict_get_def by (metis (no_types, lifting))

lemma retry_channels_budget:
  "retry_channels net cs a m = (e, a', m') \<Longrightarrow> budget_kept a a'"
proof (induction cs arbitrary: a m)
  case Nil
  then show ?case by (simp add: budget_kept_refl)
next
  case (Cons c cs)
  let ?n = "channel_value (channel c)"
  show ?case
  proof (cases "map_of (delivery_status a) ?n \<in> {Some ''failed'', Some ''error''}
                \<and> dict_get (retry_count a) ?n 0 < 3")
    case False
    with Cons.prems have "retry_channels net cs a m = (e, a', m')"
      by (auto simp: Let_def)
    then show ?thesis by (rule Cons.IH)
  next
    case True
    obtain r a1 m1 where rc: "retry_channel net c a m = (r, a1, m1)"
      by (cases "retry_channel net c a m") auto
    from retry_channel_touched [OF rc] have f: "retry_count a1 = retry_count a"
      "delivery_status a1 = delivery_status a"
      by (simp_all add: touched_fields)
    show ?thesis
    proof (cases r)
      case (Inl x)
      with Cons.prems True rc have "a' = a1" by (simp add: Let_def)
      with f show ?thesis by (simp add: budget_kept_def)
    next
      case (Inr success)
      define a2 where "a2 = (if success
                        then a1\<lparr>delivery_status :=
                               AList.update ?n ''delivered'' (delivery_status a1)\<rparr>
                        else a1\<lparr>retry_count :=
                               AList.update ?n (dict_get (retry_count a1) ?n 0 + 1)
                                 (retry_count a1)\<rparr>)"
      from Cons.prems True rc Inr
      have "retry_channels net cs a2 (save_alert a2 m1) = (e, a', m')"
        by (simp add: Let_def a2_def)
      then have ih: "budget_kept a2 a'" by (rule Cons.IH)
      have "budget_kept a a2"
        using True f by (auto simp: budget_kept_def a2_def dict_get_update update_conv')
      then show ?thesis using ih by (rule budget_kept_trans)
    qed
  qed
qed

lemma retry_alerts_budget:
  "retry_alerts net al m = (e, al', m') \<Longrightarrow> list_all2 budget_kept al al'"
proof (induction al arbitrary: m e al' m')
  case Nil
  then show ?case by simp
next
  case (Cons a al)
  obtain x a1 m1 where rc: "retry_channels net (channels a) a m = (x, a1, m1)"
    by (cases "retry_channels net (channels a) a m") auto
  have b: "budget_kept a a1" by (rule retry_channels_budget [OF rc])
  show ?case
  proof (cases x)
    case (Some ex)
    with Cons.prems rc have "al' = a1 # al" by simp
    with b show ?thesis by (simp add: list_all2_refl budget_kept_refl)
  next
    case None
    obtain e2 rest m2 where ra: "retry_alerts net al m1 = (e2, rest, m2)"
      by (cases "retry_alerts net al m1") auto
    with Cons.prems rc None have "al' = a1 # rest" by simp
    with b Cons.IH [OF ra] show ?thesis by simp
  qed
qed

lemma retry_failed_alerts_budget:
  "list_all2 budget_kept (alerts m) (alerts (snd (retry_failed_alerts net m)))"
proof -
  obtain e al m' where ra: "retry_alerts net (alerts m) m = (e, al, m')"
    by (cases "retry_alerts net (alerts m) m") auto
  then have "alerts (snd (retry_failed_alerts net m)) = al"
    by (simp add: retry_failed_alerts_def)
  with retry_alerts_budget [OF ra] show ?thesis by simp
qed

lemma retry_sweeps_budget:
  "list_all2 budget_kept (alerts m) (alerts (retry_sweeps net n m))"
proof (induction n arbitrary: m)
  case 0
  then show ?case by (simp add: list_all2_refl budget_kept_refl)
next
  case (Suc n)
  have "list_all2 budget_kept (alerts (snd (retry_failed_alerts net m)))
          (alerts (retry_sweeps net (Suc n) m))"
    using Suc.IH by simp
  with retry_failed_alerts_budget [of m net] show ?case
    by (rule list_all2_trans [rotated]) (rule budget_kept_trans)
qed

lemma retry_channels_exhausted:
  "\<forall>c \<in> set cs. 3 \<le> dict_get (retry_count a) (channel_value (channel c)) 0 \<Longrightarrow>
     retry_channels net cs a m = (None, a, m)"
  by (induction cs) (auto simp: Let_def)

lemma retry_alerts_exhausted:
  "\<forall>a \<in> set al. \<forall>c \<in> set (channels a).
       3 \<le> dict_get (retry_count a) (channel_value (channel c)) 0 \<Longrightarrow>
     retry_alerts net al m = (None, al, m)"
  by (induction al) (auto simp: retry_channels_exhausted)

lemma retry_sweeps_exhausted:
  "\<forall>a \<in> set (alerts m). \<forall>c \<in> set (channels a).
       3 \<le> dict_get (retry_count a) (channel_value (channel c)) 0 \<Longrightarrow>
     retry_sweeps net n m = m"
  by (induction n) (auto simp: retry_failed_alerts_def retry_alerts_exhausted)

text \<open>
  C3, as the code has it. Four calls of \<open>process_pending_alerts\<close> on a pending alert
  whose SMS channel keeps failing leave \<open>retry_count["sms"] = 4\<close>: \<open>send_alert\<close> counts
  every failure and has no bound.
\<close>

theorem process_pending_alerts_unbounded_retry_count:
  "map retry_count
     (alerts (failing_round (failing_round (failing_round (failing_round
        (demo_manager [demo_alert [sms_channel] ''pending'']))))))
   = [[(''sms'', 4)]]"
  by code_simp

text \<open>
  C3, amended. The bound belongs to \<open>retry_failed_alerts\<close>: over any number of sweeps
  and whatever the transports answer, a retry count of at most 3 stays at most 3, and
  for a channel name whose count has reached 3 the entries of \<open>delivery_status\<close> and
  \<open>retry_count\<close> are unchanged; when every channel of every alert has reached 3 the
  sweeps attempt nothing and the whole state is unchanged; and the loop over the
  channels of an alert passes over a channel whose count has reached 3.
\<close>

theorem retry_sweeps_keep_budget:
  "list_all2
     (\<lambda>a a'. \<forall>k. (dict_get (retry_count a) k 0 \<le> 3 \<longrightarrow> dict_get (retry_count a') k 0 \<le> 3)
              \<and> (3 \<le> dict_get (retry_count a) k 0 \<longrightarrow>
                   map_of (delivery_status a') k = map_of (delivery_status a) k
                   \<and> map_of (retry_count a') k = map_of (retry_count a) k))
     (alerts m) (alerts (retry_sweeps net n m))
   \<and> ((\<forall>a \<in> set (alerts m). \<forall>c \<in> set (channels a).
          3 \<le> dict_get (retry_count a) (channel_value (channel c)) 0)
        \<longrightarrow> retry_sweeps net n m = m)
   \<and> (3 \<le> dict_get (retry_count alert) (channel_value (channel chan)) 0
        \<longrightarrow> retry_channels net (chan # rest) alert m = retry_channels net rest alert m)"
proof (intro conjI impI)
  show "list_all2
     (\<lambda>a a'. \<forall>k. (dict_get (retry_count a) k 0 \<le> 3 \<longrightarrow> dict_get (retry_count a') k 0 \<le> 3)
              \<and> (3 \<le> dict_get (retry_count a) k 0 \<longrightarrow>
                   map_of (delivery_status a') k = map_of (delivery_status a) k
                   \<and> map_of (retry_count a') k = map_of (retry_count a) k))
     (alerts m) (alerts (retry_sweeps net n m))"
    using retry_sweeps_budget [of m net n] by (simp add: budget_kept_def [abs_def])
next
  assume "\<forall>a \<in> set (alerts m). \<forall>c \<in> set (channels a).
          3 \<le> dict_get (retry_count a) (channel_value (channel c)) 0"
  then show "retry_sweeps net n m = m" by (rule retry_sweeps_exhausted)
next
  assume "3 \<le> dict_get (retry_count alert) (channel_value (channel chan)) 0"
  then show "retry_channels net (chan # rest) alert m = retry_channels net rest alert m"
    by (simp add: Let_def)
qed

theorem retry_sweeps_keep_budget_witness:
  "dict_get (retry_count (failed_alert 3)) ''sms'' 0 = 3
   \<and> channels (failed_alert 3) = [sms_channel]
   \<and> map delivery_status (alerts (retry_sweeps net_up 2 (demo_manager [failed_alert 3])))
       = [[(''sms'', ''failed'')]]
   \<and> map retry_count (alerts (retry_sweeps net_up 2 (demo_manager [failed_alert 3])))
       = [[(''sms'', 3)]]
   \<and> retry_sweeps net_up 2 (demo_manager [failed_alert 3]) = demo_manager [failed_alert 3]
   \<and> map retry_count (alerts (retry_sweeps net_down 5 (demo_manager [failed_alert 1])))
       = [[(''sms'', 3)]]"
proof -
  have h: "\<forall>a \<in> set (alerts (demo_manager [failed_alert 3])). \<forall>c \<in> set (channels a).
             3 \<le> dict_get (retry_count a) (channel_value (channel c)) 0"
    by (simp add: demo_manager_def failed_alert_def demo_alert_def sms_channel_def
          dict_get_def)
  from retry_sweeps_keep_budget [of "demo_manager [failed_alert 3]" net_up 2] h
  have "retry_sweeps net_up 2 (demo_manager [failed_alert 3]) = demo_manager [failed_alert 3]"
    by blast
  moreover have "map retry_count (alerts (retry_sweeps net_down 5 (demo_manager [failed_alert 1])))
       = [[(''sms'', 3)]]"
    by code_simp
  ultimately show ?thesis
    by (simp add: demo_manager_def failed_alert_def demo_alert_def dict_get_def)
qed

subsection \<open>Status writes of dispatch and retry\<close>

lemma sent_or_same_refl: "sent_or_same a a"
  by (simp add: sent_or_same_def)

lemma sent_or_same_trans: "sent_or_same a b \<Longrightarrow> sent_or_same b c \<Longrightarrow> sent_or_same a c"
  by (auto simp: sent_or_same_def)

lemma touched_sent_or_same: "touched a a' \<Longrightarrow> sent_or_same a a'"
  by (auto simp: touched_def sent_or_same_def)

lemma send_alert_step_status:
  "send_alert_step net e u c (rs, a, m) = (rs', a', m') \<Longrightarrow> sent_or_same a a'"
proof (cases "enabled c")
  case False
  assume "send_alert_step net e u c (rs, a, m) = (rs', a', m')"
  with False show ?thesis by (simp add: send_alert_step_def sent_or_same_refl)
next
  case True
  assume st: "send_alert_step net e u c (rs, a, m) = (rs', a', m')"
  obtain r a1 m1 where sc: "send_alert_channel net c a e u m = (r, a1, m1)"
    by (cases "send_alert_channel net c a e u m") auto
  from send_alert_channel_touched [OF sc] have "sent_or_same a a1"
    by (rule touched_sent_or_same)
  moreover from st True sc have "status a' = status a1"
    by (cases r) (auto simp: send_alert_step_def Let_def split: if_splits)
  ultimately show ?thesis by (simp add: sent_or_same_def)
qed

lemma send_alert_loop_status:
  "fold (send_alert_step net e u) cs (rs, a, m) = (rs', a', m') \<Longrightarrow> sent_or_same a a'"
proof (induction cs arbitrary: rs a m)
  case Nil
  then show ?case by (simp add: sent_or_same_refl)
next
  case (Cons c cs)
  obtain rs1 a1 m1 where st: "send_alert_step net e u c (rs, a, m) = (rs1, a1, m1)"
    by (cases "send_alert_step net e u c (rs, a, m)") auto
  with Cons.prems have "fold (send_alert_step net e u) cs (rs1, a1, m1) = (rs', a', m')"
    by simp
  then have "sent_or_same a1 a'" by (rule Cons.IH)
  with send_alert_step_status [OF st] show ?case by (rule sent_or_same_trans)
qed

lemma send_alert_status:
  "send_alert net a e u m = (rs, a', m') \<Longrightarrow> sent_or_same a a'"
proof -
  assume sa: "send_alert net a e u m = (rs, a', m')"
  obtain rs1 a1 m1 where
    f: "fold (send_alert_step net e u) (channels a) ([], a, m) = (rs1, a1, m1)"
    by (cases "fold (send_alert_step net e u) (channels a) ([], a, m)") auto
  with sa have "a' = a1" by (simp add: send_alert_def)
  with send_alert_loop_status [OF f] show ?thesis by simp
qed

lemma process_alerts_status:
  "process_alerts net f now al m = (rs, al', m') \<Longrightarrow> list_all2 sent_or_same al al'"
proof (induction al arbitrary: m rs al' m')
  case Nil
  then show ?case by simp
next
  case (Cons a al)
  show ?case
  proof (cases "status a = ''pending'' \<and> expires_at a > now")
    case True
    obtain s a1 m1 where sa:
      "send_alert net a (f (investor_id a))
         (''https://yourplatform.com/opportunities/'' @ opportunity_id a) m = (s, a1, m1)"
      by (cases "send_alert net a (f (investor_id a))
         (''https://yourplatform.com/opportunities/'' @ opportunity_id a) m") auto
    obtain rs2 rest m2 where pa: "process_alerts net f now al m1 = (rs2, rest, m2)"
      by (cases "process_alerts net f now al m1") auto
    from Cons.prems True sa pa have "al' = a1 # rest" by (simp add: Let_def)
    with send_alert_status [OF sa] Cons.IH [OF pa] show ?thesis by simp
  next
    case False
    obtain rs2 rest m2 where pa: "process_alerts net f now al m = (rs2, rest, m2)"
      by (cases "process_alerts net f now al m") auto
    from Cons.prems False pa have "al' = a # rest" by (auto simp: Let_def)
    with Cons.IH [OF pa] show ?thesis by (simp add: sent_or_same_refl)
  qed
qed

lemma process_alerts_guard:
  "process_alerts net f now al m = (rs, al', m') \<Longrightarrow>
     list_all2 (\<lambda>a a'. status a \<noteq> ''pending'' \<longrightarrow> a' = a) al al'
     \<and> (\<forall>r \<in> set rs. \<exists>a \<in> set al. res_alert_id r = alert_id a \<and> status a = ''pending'')"
proof (induction al arbitrary: m rs al' m')
  case Nil
  then show ?case by simp
next
  case (Cons a al)
  show ?case
  proof (cases "status a = ''pending'' \<and> expires_at a > now")
    case True
    obtain s a1 m1 where sa:
      "send_alert net a (f (investor_id a))
         (''https://yourplatform.com/opportunities/'' @ opportunity_id a) m = (s, a1, m1)"
      by (cases "send_alert net a (f (investor_id a))
         (''https://yourplatform.com/opportunities/'' @ opportunity_id a) m") auto
    obtain rs2 rest m2 where pa: "process_alerts net f now al m1 = (rs2, rest, m2)"
      by (cases "process_alerts net f now al m1") auto
    from Cons.prems True sa pa have "al' = a1 # rest"
      and "rs = \<lparr>res_alert_id = alert_id a, res_investor_id = investor_id a,
                  res_success = s\<rparr> # rs2"
      by (simp_all add: Let_def)
    with True Cons.IH [OF pa] show ?thesis by auto
  next
    case False
    obtain rs2 rest m2 where pa: "process_alerts net f now al m = (rs2, rest, m2)"
      by (cases "process_alerts net f now al m") auto
    from Cons.prems False pa have "al' = a # rest" and "rs = rs2" by (auto simp: Let_def)
    with Cons.IH [OF pa] show ?thesis by auto
  qed
qed

lemma process_alerts_none_pending:
  "\<forall>a \<in> set al. status a \<noteq> ''pending'' \<Longrightarrow> process_alerts net f now al m = ([], al, m)"
  by (induction al) auto

lemma retry_channels_status:
  "retry_channels net cs a m = (e, a', m') \<Longrightarrow> sent_or_same a a'"
proof (induction cs arbitrary: a m)
  case Nil
  then show ?case by (simp add: sent_or_same_refl)
next
  case (Cons c cs)
  let ?n = "channel_value (channel c)"
  show ?case
  proof (cases "map_of (delivery_status a) ?n \<in> {Some ''failed'', Some ''error''}
                \<and> dict_get (retry_count a) ?n 0 < 3")
    case False
    with Cons.prems have "retry_channels net cs a m = (e, a', m')"
      by (auto simp: Let_def)
    then show ?thesis by (rule Cons.IH)
  next
    case True
    obtain r a1 m1 where rc: "retry_channel net c a m = (r, a1, m1)"
      by (cases "retry_channel net c a m") auto
    from retry_channel_touched [OF rc] have s1: "sent_or_same a a1"
      by (rule touched_sent_or_same)
    show ?thesis
    proof (cases r)
      case (Inl x)
      with Cons.prems True rc have "a' = a1" by (simp add: Let_def)
      with s1 show ?thesis by simp
    next
      case (Inr success)
      define a2 where "a2 = (if success
                        then a1\<lparr>delivery_status :=
                               AList.update ?n ''delivered'' (delivery_status a1)\<rparr>
                        else a1\<lparr>retry_count :=
                               AList.update ?n (dict_get (retry_count a1) ?n 0 + 1)
                                 (retry_count a1)\<rparr>)"
      from Cons.prems True rc Inr
      have "retry_channels net cs a2 (save_alert a2 m1) = (e, a', m')"
        by (simp add: Let_def a2_def)
      then have ih: "sent_or_same a2 a'" by (rule Cons.IH)
      have "sent_or_same a a2"
        using s1 by (simp add: sent_or_same_def a2_def)
      then show ?thesis using ih by (rule sent_or_same_trans)
    qed
  qed
qed

lemma retry_alerts_status:
  "retry_alerts net al m = (e, al', m') \<Longrightarrow> list_all2 sent_or_same al al'"
proof (induction al arbitrary: m e al' m')
  case Nil
  then show ?case by simp
next
  case (Cons a al)
  obtain x a1 m1 where rc: "retry_channels net (channels a) a m = (x, a1, m1)"
    by (cases "retry_channels net (channels a) a m") auto
  have b: "sent_or_same a a1" by (rule retry_channels_status [OF rc])
  show ?case
  proof (cases x)
    case (Some ex)
    with Cons.prems rc have "al' = a1 # al" by simp
    with b show ?thesis by (simp add: list_all2_refl sent_or_same_refl)
  next
    case None
    obtain e2 rest m2 where ra: "retry_alerts net al m1 = (e2, rest, m2)"
      by (cases "retry_alerts net al m1") auto
    with Cons.prems rc None have "al' = a1 # rest" by simp
    with b Cons.IH [OF ra] show ?thesis by simp
  qed
qed

lemma retry_failed_alerts_status:
  "list_all2 sent_or_same (alerts m) (alerts (snd (retry_failed_alerts net m)))"
proof -
  obtain e al m' where ra: "retry_alerts net (alerts m) m = (e, al, m')"
    by (cases "retry_alerts net (alerts m) m") auto
  then have "alerts (snd (retry_failed_alerts net m)) = al"
    by (simp add: retry_failed_alerts_def)
  with retry_alerts_status [OF ra] show ?thesis by simp
qed

subsection \<open>The expiry sweep\<close>

lemma lookup_alert_id: "lookup_alert al k = Some a \<Longrightarrow> alert_id a = k"
  by (auto simp: lookup_alert_def find_Some_iff)

lemma lookup_alert_Cons:
  "lookup_alert (b # bs) k = (if alert_id b = k then Some b else lookup_alert bs k)"
  by (simp add: lookup_alert_def)

lemma lookup_alert_Nil: "lookup_alert [] k = None"
  by (simp add: lookup_alert_def)

lemma put_alert_same: "lookup_alert al (alert_id a) = Some a \<Longrightarrow> put_alert a al = al"
  by (induction al) (auto simp: lookup_alert_Cons lookup_alert_Nil split: if_splits)

lemma lookup_put_alert:
  "lookup_alert (put_alert a al) k = (if k = alert_id a then Some a else lookup_alert al k)"
  by (induction al) (auto simp: lookup_alert_Cons lookup_alert_Nil)

lemma expired_or_same_refl: "expired_or_same a a"
  by (simp add: expired_or_same_def)

lemma expired_or_same_trans:
  "expired_or_same a b \<Longrightarrow> expired_or_same b c \<Longrightarrow> expired_or_same a c"
  by (auto simp: expired_or_same_def)

lemma expired_status_same: "status a = ''expired'' \<Longrightarrow> a\<lparr>status := ''expired''\<rparr> = a"
  by (cases a) simp

lemma put_alert_expired:
  "lookup_alert al k = Some b \<Longrightarrow>
     list_all2 expired_or_same al (put_alert (b\<lparr>status := ''expired''\<rparr>) al)"
proof (induction al)
  case Nil
  then show ?case by (simp add: lookup_alert_Nil)
next
  case (Cons c cs)
  from Cons.prems have kb: "alert_id b = k" by (rule lookup_alert_id)
  show ?case
  proof (cases "alert_id c = k")
    case True
    with Cons.prems have "c = b" by (simp add: lookup_alert_Cons)
    with True kb show ?thesis
      by (simp add: expired_or_same_def list_all2_refl)
  next
    case False
    with Cons.prems have "lookup_alert cs k = Some b" by (simp add: lookup_alert_Cons)
    from Cons.IH [OF this] False kb show ?thesis
      by (simp add: expired_or_same_refl)
  qed
qed

lemma expire_alert_rel: "list_all2 expired_or_same (alerts m) (alerts (expire_alert k m))"
  by (cases "lookup_alert (alerts m) k")
     (simp_all add: expire_alert_def save_alert_def Let_def list_all2_refl
        expired_or_same_refl put_alert_expired)

lemma fold_expire_alert_rel:
  "list_all2 expired_or_same (alerts m) (alerts (fold expire_alert ks m))"
proof (induction ks arbitrary: m)
  case Nil
  then show ?case by (simp add: list_all2_refl expired_or_same_refl)
next
  case (Cons k ks)
  have "list_all2 expired_or_same (alerts (expire_alert k m))
          (alerts (fold expire_alert (k # ks) m))"
    using Cons.IH by simp
  with expire_alert_rel [of m k] show ?case
    by (rule list_all2_trans [rotated]) (rule expired_or_same_trans)
qed

lemma expired_or_same_keys:
  "list_all2 expired_or_same al al' \<Longrightarrow>
     map alert_id (filter (\<lambda>a. expires_at a < t) al')
       = map alert_id (filter (\<lambda>a. expires_at a < t) al)"
  by (induction al al' rule: list_all2_induct) (auto simp: expired_or_same_def)

lemma settled_fixed: "settled k m \<Longrightarrow> expire_alert k m = m"
proof -
  assume "settled k m"
  then obtain a where l: "lookup_alert (alerts m) k = Some a"
    and s: "status a = ''expired''" and f: "files m k = Some a"
    by (auto simp: settled_def)
  from l have k: "alert_id a = k" by (rule lookup_alert_id)
  from l k have p: "put_alert a (alerts m) = alerts m" by (simp add: put_alert_same)
  from f have "(files m)(k \<mapsto> a) = files m" by (simp add: fun_upd_idem)
  with l s k p show ?thesis
    by (simp add: expire_alert_def Let_def save_alert_def expired_status_same)
qed

lemma expire_alert_settles:
  "lookup_alert (alerts m) k = Some a \<Longrightarrow> settled k (expire_alert k m)"
proof -
  assume l: "lookup_alert (alerts m) k = Some a"
  then have "alert_id a = k" by (rule lookup_alert_id)
  with l show ?thesis
    by (simp add: settled_def expire_alert_def Let_def save_alert_def lookup_put_alert)
qed

lemma settled_stable: "settled k m \<Longrightarrow> settled k (expire_alert j m)"
proof (cases "j = k")
  case True
  assume "settled k m"
  with True show ?thesis by (simp add: settled_fixed)
next
  case False
  assume s: "settled k m"
  show ?thesis
  proof (cases "lookup_alert (alerts m) j")
    case None
    with s show ?thesis by (simp add: expire_alert_def)
  next
    case (Some b)
    then have "alert_id b = j" by (rule lookup_alert_id)
    with s False Some show ?thesis
      by (auto simp: settled_def expire_alert_def Let_def save_alert_def lookup_put_alert)
  qed
qed

lemma settled_fold: "settled k m \<Longrightarrow> settled k (fold expire_alert ks m)"
  by (induction ks arbitrary: m) (simp_all add: settled_stable)

lemma lookup_after_expire:
  "lookup_alert (alerts m) k \<noteq> None \<Longrightarrow> lookup_alert (alerts (expire_alert j m)) k \<noteq> None"
  by (cases "lookup_alert (alerts m) j")
     (auto simp: expire_alert_def Let_def save_alert_def lookup_put_alert)

lemma fold_expire_alert_settles:
  "\<forall>k \<in> set ks. lookup_alert (alerts m) k \<noteq> None \<Longrightarrow>
     \<forall>k \<in> set ks. settled k (fold expire_alert ks m)"
proof (induction ks arbitrary: m)
  case Nil
  then show ?case by simp
next
  case (Cons j ks)
  from Cons.prems obtain a where l: "lookup_alert (alerts m) j = Some a" by auto
  have "settled j (fold expire_alert ks (expire_alert j m))"
    by (rule settled_fold) (rule expire_alert_settles [OF l])
  moreover have "\<forall>k \<in> set ks. lookup_alert (alerts (expire_alert j m)) k \<noteq> None"
    using Cons.prems by (simp add: lookup_after_expire)
  then have "\<forall>k \<in> set ks. settled k (fold expire_alert ks (expire_alert j m))"
    by (rule Cons.IH)
  ultimately show ?case by simp
qed

lemma fold_expire_alert_fixed:
  "\<forall>k \<in> set ks. settled k m \<Longrightarrow> fold expire_alert ks m = m"
  by (induction ks) (simp_all add: settled_fixed)

lemma expired_ids_found:
  "k \<in> set (map alert_id (filter P al)) \<Longrightarrow> lookup_alert al k \<noteq> None"
  by (auto simp: lookup_alert_def find_None_iff)

lemma cleanup_expired_alerts_idem:
  "cleanup_expired_alerts t (cleanup_expired_alerts t m) = cleanup_expired_alerts t m"
proof -
  let ?ks = "map alert_id (filter (\<lambda>a. expires_at a < t) (alerts m))"
  let ?m1 = "fold expire_alert ?ks m"
  have m1: "cleanup_expired_alerts t m = ?m1"
    by (simp add: cleanup_expired_alerts_def)
  have keys: "map alert_id (filter (\<lambda>a. expires_at a < t) (alerts ?m1)) = ?ks"
    by (rule expired_or_same_keys) (rule fold_expire_alert_rel)
  have "\<forall>k \<in> set ?ks. lookup_alert (alerts m) k \<noteq> None"
    using expired_ids_found by blast
  then have "\<forall>k \<in> set ?ks. settled k ?m1" by (rule fold_expire_alert_settles)
  then have "fold expire_alert ?ks ?m1 = ?m1" by (rule fold_expire_alert_fixed)
  with keys have "cleanup_expired_alerts t ?m1 = ?m1"
    by (simp add: cleanup_expired_alerts_def)
  with m1 show ?thesis by simp
qed

lemma cleanup_expired_alerts_rel:
  "list_all2 expired_or_same (alerts m) (alerts (cleanup_expired_alerts t m))"
  by (simp add: cleanup_expired_alerts_def fold_expire_alert_rel)

subsection \<open>Alerts that are read or expired\<close>

text \<open>
  C4, as the code has it. \<open>send_alert\<close> on an alert whose status is \<open>read\<close>, with an
  enabled email channel that delivers: the channel is attempted, the result map is
  \<open>{"email": True}\<close>, \<open>delivery_status\<close> gains an entry and the status becomes \<open>sent\<close>.
  \<open>send_alert\<close> never looks at the status.
\<close>

theorem send_alert_on_read_alert_dispatches:
  "fst (send_alert net_up (demo_alert [email_channel] ''read'') (Some ''ana@example.com'')
          ''https://yourplatform.com/opportunities/opp1'' (demo_manager []))
     = [(''email'', True)]
   \<and> delivery_status
         (fst (snd (send_alert net_up (demo_alert [email_channel] ''read'')
                      (Some ''ana@example.com'')
                      ''https://yourplatform.com/opportunities/opp1'' (demo_manager []))))
       = [(''email'', ''delivered'')]
   \<and> status
         (fst (snd (send_alert net_up (demo_alert [email_channel] ''read'')
                      (Some ''ana@example.com'')
                      ''https://yourplatform.com/opportunities/opp1'' (demo_manager []))))
       = ''sent''
   \<and> tick (snd (snd (send_alert net_up (demo_alert [email_channel] ''read'')
                      (Some ''ana@example.com'')
                      ''https://yourplatform.com/opportunities/opp1'' (demo_manager []))))
       = 1"
  by code_simp

text \<open>
  C4, amended. The guard is in the caller \<open>process_pending_alerts\<close>, which dispatches
  only alerts whose status is \<open>pending\<close> (and whose expiry lies ahead): an alert with any
  other status, \<open>read\<close> and \<open>expired\<close> included, is left as it is and has no entry among
  the results; when no alert is pending nothing is attempted and the state is unchanged.
\<close>

theorem process_pending_alerts_skips_not_pending:
  "process_pending_alerts net get_investor_email_func current_time m = (results, m') \<Longrightarrow>
     list_all2 (\<lambda>a a'. status a \<noteq> ''pending'' \<longrightarrow> a' = a) (alerts m) (alerts m')
     \<and> (\<forall>r \<in> set results.
           \<exists>a \<in> set (alerts m). res_alert_id r = alert_id a \<and> status a = ''pending'')
     \<and> ((\<forall>a \<in> set (alerts m). status a \<noteq> ''pending'') \<longrightarrow> results = [] \<and> m' = m)"
proof -
  assume pp: "process_pending_alerts net get_investor_email_func current_time m = (results, m')"
  obtain rs al m1 where
    pa: "process_alerts net get_investor_email_func current_time (alerts m) m = (rs, al, m1)"
    by (cases "process_alerts net get_investor_email_func current_time (alerts m) m") auto
  with pp have r: "results = rs" and m': "m' = m1\<lparr>alerts := al\<rparr>"
    by (simp_all add: process_pending_alerts_def)
  have "(\<forall>a \<in> set (alerts m). status a \<noteq> ''pending'') \<longrightarrow> results = [] \<and> m' = m"
    using pa r m' by (auto simp: process_alerts_none_pending)
  with process_alerts_guard [OF pa] r m' show ?thesis by simp
qed

theorem process_pending_alerts_skips_not_pending_witness:
  "map status (alerts (demo_manager [demo_alert [email_channel] ''read'',
                                       second_alert [sms_channel] ''expired'']))
     = [''read'', ''expired'']
   \<and> process_pending_alerts net_up demo_email_of 0
        (demo_manager [demo_alert [email_channel] ''read'', second_alert [sms_channel] ''expired''])
     = ([], demo_manager [demo_alert [email_channel] ''read'',
                          second_alert [sms_channel] ''expired''])"
proof -
  let ?m = "demo_manager [demo_alert [email_channel] ''read'', second_alert [sms_channel] ''expired'']"
  obtain rs m' where pp: "process_pending_alerts net_up demo_email_of 0 ?m = (rs, m')"
    by (cases "process_pending_alerts net_up demo_email_of 0 ?m") auto
  have "\<forall>a \<in> set (alerts ?m). status a \<noteq> ''pending''"
    by (simp add: demo_manager_def demo_alert_def second_alert_def)
  with process_pending_alerts_skips_not_pending [OF pp] have "rs = [] \<and> m' = ?m" by blast
  with pp show ?thesis by (simp add: demo_manager_def demo_alert_def second_alert_def)
qed

text \<open>
  C5, as the code has it. The expiry sweep turns a \<open>read\<close> alert whose expiry has
  passed into \<open>expired\<close>, and a retry sweep whose email send succeeds turns an \<open>expired\<close>
  or a \<open>read\<close> alert into \<open>sent\<close>.
\<close>

theorem terminal_status_overwritten:
  "map status (alerts (cleanup_expired_alerts 200000 (demo_manager [demo_alert [] ''read''])))
     = [''expired'']
   \<and> map status (alerts (snd (retry_failed_alerts net_up
                                  (demo_manager [failed_email_alert ''expired'']))))
     = [''sent'']
   \<and> map status (alerts (snd (retry_failed_alerts net_up
                                  (demo_manager [failed_email_alert ''read'']))))
     = [''sent'']"
  by code_simp

text \<open>
  C5, amended. The engine writes two statuses only: \<open>send_alert\<close>,
  \<open>process_pending_alerts\<close> and \<open>retry_failed_alerts\<close> leave the status of every alert as
  it was or set it to \<open>sent\<close>; \<open>cleanup_expired_alerts\<close> leaves it as it was or sets it to
  \<open>expired\<close>. None of them writes \<open>pending\<close> or \<open>read\<close>, so no alert goes back to
  \<open>pending\<close>, and the expiry sweep keeps an expired alert expired.
\<close>

theorem engine_status_writes:
  "(send_alert net alert investor_email view_url m = (results, alert', m')
      \<longrightarrow> status alert' = status alert \<or> status alert' = ''sent'')
   \<and> list_all2 (\<lambda>a a'. status a' = status a \<or> status a' = ''sent'')
        (alerts m) (alerts (snd (process_pending_alerts net get_investor_email_func t m)))
   \<and> list_all2 (\<lambda>a a'. status a' = status a \<or> status a' = ''sent'')
        (alerts m) (alerts (snd (retry_failed_alerts net m)))
   \<and> list_all2 (\<lambda>a a'. status a' = status a \<or> status a' = ''expired'')
        (alerts m) (alerts (cleanup_expired_alerts t m))"
proof (intro conjI impI)
  assume "send_alert net alert investor_email view_url m = (results, alert', m')"
  from send_alert_status [OF this]
  show "status alert' = status alert \<or> status alert' = ''sent''"
    by (simp add: sent_or_same_def)
next
  obtain rs al m1 where
    pa: "process_alerts net get_investor_email_func t (alerts m) m = (rs, al, m1)"
    by (cases "process_alerts net get_investor_email_func t (alerts m) m") auto
  then have "alerts (snd (process_pending_alerts net get_investor_email_func t m)) = al"
    by (simp add: process_pending_alerts_def)
  with process_alerts_status [OF pa]
  show "list_all2 (\<lambda>a a'. status a' = status a \<or> status a' = ''sent'')
        (alerts m) (alerts (snd (process_pending_alerts net get_investor_email_func t m)))"
    by (simp add: sent_or_same_def [abs_def])
next
  from retry_failed_alerts_status [of m net]
  show "list_all2 (\<lambda>a a'. status a' = status a \<or> status a' = ''sent'')
        (alerts m) (alerts (snd (retry_failed_alerts net m)))"
    by (simp add: sent_or_same_def [abs_def])
next
  have "list_all2 expired_or_same (alerts m) (alerts (cleanup_expired_alerts t m))"
    by (rule cleanup_expired_alerts_rel)
  then show "list_all2 (\<lambda>a a'. status a' = status a \<or> status a' = ''expired'')
        (alerts m) (alerts (cleanup_expired_alerts t m))"
    by (rule list_all2_mono) (auto simp: expired_or_same_def)
qed

theorem engine_status_writes_witness:
  "status (demo_alert [email_channel] ''pending'') = ''pending''
   \<and> status (fst (snd (send_alert net_up (demo_alert [email_channel] ''pending'')
                        (Some ''ana@example.com'')
                        ''https://yourplatform.com/opportunities/opp1'' (demo_manager []))))
       = ''sent''
   \<and> map status (alerts (cleanup_expired_alerts 200000 (demo_manager [demo_alert [] ''sent''])))
       = [''expired'']"
proof -
  obtain rs a' m' where sa:
    "send_alert net_up (demo_alert [email_channel] ''pending'') (Some ''ana@example.com'')
       ''https://yourplatform.com/opportunities/opp1'' (demo_manager []) = (rs, a', m')"
    by (cases "send_alert net_up (demo_alert [email_channel] ''pending'')
       (Some ''ana@example.com'') ''https://yourplatform.com/opportunities/opp1''
       (demo_manager [])") auto
  from engine_status_writes [THEN conjunct1, rule_format, OF sa]
  have d: "status a' = status (demo_alert [email_channel] ''pending'') \<or> status a' = ''sent''" .
  have e: "status (fst (snd (send_alert net_up (demo_alert [email_channel] ''pending'')
                        (Some ''ana@example.com'')
                        ''https://yourplatform.com/opportunities/opp1'' (demo_manager []))))
       \<noteq> ''pending''"
    by code_simp
  have c: "map status (alerts (cleanup_expired_alerts 200000 (demo_manager [demo_alert [] ''sent''])))
       = [''expired'']"
    by code_simp
  from d e sa c show ?thesis by (auto simp: demo_alert_def)
qed

text \<open>
  C7. At a fixed current time, running \<open>cleanup_expired_alerts\<close> twice gives the state
  that running it once gives (the alerts in memory, the documents in \<open>data/alerts\<close> and
  everything else), and a sweep leaves every field of an alert that is already expired
  as it was.
\<close>

theorem cleanup_expired_alerts_idempotent:
  "cleanup_expired_alerts t (cleanup_expired_alerts t m) = cleanup_expired_alerts t m
   \<and> list_all2 (\<lambda>a a'. status a = ''expired'' \<longrightarrow> a' = a)
        (alerts m) (alerts (cleanup_expired_alerts t m))"
proof
  show "cleanup_expired_alerts t (cleanup_expired_alerts t m) = cleanup_expired_alerts t m"
    by (rule cleanup_expired_alerts_idem)
next
  have "list_all2 expired_or_same (alerts m) (alerts (cleanup_expired_alerts t m))"
    by (rule cleanup_expired_alerts_rel)
  then show "list_all2 (\<lambda>a a'. status a = ''expired'' \<longrightarrow> a' = a)
        (alerts m) (alerts (cleanup_expired_alerts t m))"
    by (rule list_all2_mono) (auto simp: expired_or_same_def expired_status_same)
qed

theorem cleanup_expired_alerts_idempotent_witness:
  "map status (alerts (demo_manager [demo_alert [email_channel] ''expired'',
                                       second_alert [sms_channel] ''sent'']))
     = [''expired'', ''sent'']
   \<and> alerts (cleanup_expired_alerts 200000
        (demo_manager [demo_alert [email_channel] ''expired'', second_alert [sms_channel] ''sent'']))
     = [demo_alert [email_channel] ''expired'', second_alert [sms_channel] ''expired'']
   \<and> cleanup_expired_alerts 200000 (cleanup_expired_alerts 200000
        (demo_manager [demo_alert [email_channel] ''expired'', second_alert [sms_channel] ''sent'']))
     = cleanup_expired_alerts 200000
        (demo_manager [demo_alert [email_channel] ''expired'', second_alert [sms_channel] ''sent''])"
proof -
  let ?m = "demo_manager [demo_alert [email_channel] ''expired'', second_alert [sms_channel] ''sent'']"
  have e: "alerts (cleanup_expired_alerts 200000 ?m)
     = [demo_alert [email_channel] ''expired'', second_alert [sms_channel] ''expired'']"
    by (simp add: cleanup_expired_alerts_def expire_alert_def lookup_alert_def demo_manager_def
          demo_alert_def second_alert_def save_alert_def Let_def)
  from cleanup_expired_alerts_idempotent [of 200000 ?m] e show ?thesis
    by (simp add: demo_manager_def demo_alert_def second_alert_def)
qed

subsection \<open>Creating an alert\<close>

lemma description_cases:
  "(\<exists>k. generate_enhanced_description R opp sc ad = Inl (KeyError k)) \<and>
     (opp_name opp = None \<or> opp_sector opp = None \<or> opp_investment_amount opp = None
      \<or> opp_location opp = None \<or> opp_deal_type opp = None)
   \<or> (\<exists>d. generate_enhanced_description R opp sc ad = Inr d) \<and>
     opp_name opp \<noteq> None \<and> opp_sector opp \<noteq> None \<and> opp_investment_amount opp \<noteq> None
      \<and> opp_location opp \<noteq> None \<and> opp_deal_type opp \<noteq> None"
  by (cases "opp_name opp"; cases "opp_sector opp"; cases "opp_investment_amount opp";
      cases "opp_location opp"; cases "opp_deal_type opp")
     (simp_all add: generate_enhanced_description_def opp_item_def Let_def
        split: option.splits)

lemma title_cases:
  "(\<exists>k. generate_alert_title R opp = Inl (KeyError k)) \<and>
     (opp_sector opp = None \<or> opp_name opp = None)
   \<or> (\<exists>h. generate_alert_title R opp = Inr h) \<and> opp_sector opp \<noteq> None \<and> opp_name opp \<noteq> None"
  by (cases "opp_sector opp"; cases "opp_name opp")
     (simp_all add: generate_alert_title_def opp_item_def)

lemma priority_cases:
  "calculate_priority sc opp = Inl (KeyError ''investment_amount'') \<and>
     opp_investment_amount opp = None
   \<or> (\<exists>p. calculate_priority sc opp = Inr p) \<and> opp_investment_amount opp \<noteq> None"
proof (cases "opp_investment_amount opp")
  case None
  then show ?thesis by (simp add: calculate_priority_def opp_item_def Let_def)
next
  case (Some amount)
  then show ?thesis by (simp add: calculate_priority_eq)
qed

lemma expiry_cases:
  "(timedelta_hours hrs = Inl OverflowError
      \<or> (\<exists>d. timedelta_hours hrs = Inr d \<and> datetime_add t d = Inl OverflowError)) \<and>
     \<not> expiry_in_range t hrs
   \<or> (\<exists>d x. timedelta_hours hrs = Inr d \<and> datetime_add t d = Inr x) \<and> expiry_in_range t hrs"
  by (auto simp: timedelta_hours_def datetime_add_def expiry_in_range_def)

lemma create_alert_value:
  assumes "generate_enhanced_description R opp sc ad = Inr d"
    and "opp_id opp = Some oid"
    and "generate_alert_title R opp = Inr h"
    and "timedelta_hours hrs = Inr dl"
    and "datetime_add t2 dl = Inr x"
    and "calculate_priority sc opp = Inr p"
  shows "\<exists>a. create_alert R m investor opp sc hrs ad stamp t1 t2
             = Inr (a, save_alert a (m\<lparr>alerts := put_alert a (alerts m)\<rparr>))
           \<and> channels a =
               create_alert_channels
                 (dict_get (alert_preferences m) (profile_id investor) empty_preferences)
                 investor
           \<and> status a = ''pending'' \<and> expires_at a = x \<and> priority a = p"
  using assms by (simp add: create_alert_def opp_item_def Let_def)

lemma create_alert_key_error:
  assumes "\<not> keys_present opp"
  shows "\<exists>k. create_alert R m investor opp sc hrs ad stamp t1 t2 = Inl (KeyError k)"
proof (cases "\<exists>k. generate_enhanced_description R opp sc ad = Inl (KeyError k)")
  case True
  then show ?thesis by (auto simp: create_alert_def)
next
  case False
  with description_cases [of R opp sc ad]
  obtain d where d: "generate_enhanced_description R opp sc ad = Inr d"
    and "opp_name opp \<noteq> None" "opp_sector opp \<noteq> None" "opp_investment_amount opp \<noteq> None"
      "opp_location opp \<noteq> None" "opp_deal_type opp \<noteq> None"
    by blast
  with assms have "opp_id opp = None" by (simp add: keys_present_def)
  with d show ?thesis by (simp add: create_alert_def opp_item_def)
qed

lemma keys_present_values:
  assumes "keys_present opp"
  obtains d oid h p where "generate_enhanced_description R opp sc ad = Inr d"
    and "opp_id opp = Some oid" and "generate_alert_title R opp = Inr h"
    and "calculate_priority sc opp = Inr p"
proof -
  from assms description_cases [of R opp sc ad]
  obtain d where "generate_enhanced_description R opp sc ad = Inr d"
    by (auto simp: keys_present_def)
  moreover from assms obtain oid where "opp_id opp = Some oid"
    by (auto simp: keys_present_def)
  moreover from assms title_cases [of R opp]
  obtain h where "generate_alert_title R opp = Inr h"
    by (auto simp: keys_present_def)
  moreover from assms priority_cases [of sc opp]
  obtain p where "calculate_priority sc opp = Inr p"
    by (auto simp: keys_present_def)
  ultimately show ?thesis by (rule that)
qed

lemma create_alert_overflow:
  assumes "keys_present opp" and "\<not> expiry_in_range t2 hrs"
  shows "create_alert R m investor opp sc hrs ad stamp t1 t2 = Inl OverflowError"
proof -
  from assms(1) obtain d oid h p where
    v: "generate_enhanced_description R opp sc ad = Inr d" "opp_id opp = Some oid"
      "generate_alert_title R opp = Inr h" "calculate_priority sc opp = Inr p"
    by (rule keys_present_values)
  from expiry_cases [of hrs t2] assms(2)
  have "timedelta_hours hrs = Inl OverflowError
      \<or> (\<exists>dl. timedelta_hours hrs = Inr dl \<and> datetime_add t2 dl = Inl OverflowError)"
    by blast
  then show ?thesis
  proof (elim disjE exE conjE)
    assume "timedelta_hours hrs = Inl OverflowError"
    with v show ?thesis by (simp add: create_alert_def opp_item_def)
  next
    fix dl
    assume "timedelta_hours hrs = Inr dl" "datetime_add t2 dl = Inl OverflowError"
    with v show ?thesis by (simp add: create_alert_def opp_item_def)
  qed
qed

lemma create_alert_ok:
  assumes "keys_present opp" and "expiry_in_range t2 hrs"
  shows "\<exists>a. create_alert R m investor opp sc hrs ad stamp t1 t2
             = Inr (a, save_alert a (m\<lparr>alerts := put_alert a (alerts m)\<rparr>))
           \<and> channels a =
               create_alert_channels
                 (dict_get (alert_preferences m) (profile_id investor) empty_preferences)
                 investor
           \<and> status a = ''pending''"
proof -
  from assms(1) obtain d oid h p where
    v: "generate_enhanced_description R opp sc ad = Inr d" "opp_id opp = Some oid"
      "generate_alert_title R opp = Inr h" "calculate_priority sc opp = Inr p"
    by (rule keys_present_values)
  from expiry_cases [of hrs t2] assms(2)
  obtain dl x where e: "timedelta_hours hrs = Inr dl" "datetime_add t2 dl = Inr x"
    by blast
  from create_alert_value [OF v(1) v(2) v(3) e(1) e(2) v(4)] show ?thesis by blast
qed

lemma create_alert_Inr:
  assumes c: "create_alert R m investor opp sc hrs ad stamp t1 t2 = Inr (a, m')"
  shows "channels a =
       create_alert_channels
         (dict_get (alert_preferences m) (profile_id investor) empty_preferences) investor
     \<and> status a = ''pending''
     \<and> m' = save_alert a (m\<lparr>alerts := put_alert a (alerts m)\<rparr>)
     \<and> keys_present opp \<and> expiry_in_range t2 hrs"
proof -
  have k: "keys_present opp"
  proof (rule ccontr)
    assume "\<not> keys_present opp"
    from create_alert_key_error [OF this, of R m investor sc hrs ad stamp t1 t2] c
    show False by auto
  qed
  have r: "expiry_in_range t2 hrs"
  proof (rule ccontr)
    assume "\<not> expiry_in_range t2 hrs"
    from create_alert_overflow [OF k this, of R m investor sc ad stamp t1] c
    show False by simp
  qed
  from create_alert_ok [OF k r, of R m investor sc ad stamp t1] c
  show ?thesis using k r by auto
qed






lemma demo_keys_present: "keys_present demo_opportunity"
  by (simp add: keys_present_def demo_opportunity_def)

lemma demo_expiry_in_range: "expiry_in_range demo_now 48"
  by (simp add: expiry_in_range_def demo_now_def datetime_max_def)


lemma demo_create_Inr:
  "\<exists>a. demo_create m = Inr (a, save_alert a (m\<lparr>alerts := put_alert a (alerts m)\<rparr>))
       \<and> channels a =
           create_alert_channels
             (dict_get (alert_preferences m) (profile_id demo_investor) empty_preferences)
             demo_investor"
  using create_alert_ok [OF demo_keys_present demo_expiry_in_range]
  unfolding demo_create_def demo_create_for_def by blast


lemma email_only_preferences_channels:
  "create_alert_channels
     (dict_get (alert_preferences (manager_with [(''inv1'', email_only_preferences)]))
        (profile_id demo_investor) empty_preferences) demo_investor
   = [\<lparr>channel = EMAIL, enabled = True, config = [(''email'', Some ''ana@example.com'')]\<rparr>]"
  by (simp add: create_alert_channels_def manager_with_def demo_investor_def dict_get_def
        email_only_preferences_def empty_preferences_def selected_channels_def Let_def)




text \<open>
  C10, as the code has it. Stored preferences without a \<open>channels\<close> key that hold an
  email address: the one email channel carries that address, not \<open>None\<close>.
\<close>

theorem create_alert_default_email_keeps_stored_address:
  "map config (channels (fst (projr (demo_create
       (manager_with [(''inv1'', email_only_preferences)])))))
   = [[(''email'', Some ''ana@example.com'')]]"
proof -
  let ?m = "manager_with [(''inv1'', email_only_preferences)]"
  from demo_create_Inr [of ?m] obtain a where
    "demo_create ?m = Inr (a, save_alert a (?m\<lparr>alerts := put_alert a (alerts ?m)\<rparr>))"
    and "channels a = [\<lparr>channel = EMAIL, enabled = True,
                         config = [(''email'', Some ''ana@example.com'')]\<rparr>]"
    unfolding email_only_preferences_channels by blast
  then show ?thesis by simp
qed

text \<open>
  C10, amended. With no stored preferences the channel list is one enabled email
  channel whose address map is \<open>{"email": None}\<close>; with stored preferences that have no
  \<open>channels\<close> key it is one enabled email channel whose address map is
  \<open>{"email": preferences.get("email")}\<close>. No contact address is required.
\<close>

theorem create_alert_default_channel:
  "create_alert R m investor opp sc hrs ad stamp t1 t2 = Inr (a, m') \<Longrightarrow>
     (map_of (alert_preferences m) (profile_id investor) = None \<longrightarrow>
        channels a = [\<lparr>channel = EMAIL, enabled = True, config = [(''email'', None)]\<rparr>])
     \<and> (\<forall>p. map_of (alert_preferences m) (profile_id investor) = Some p
              \<and> pref_channels p = None \<longrightarrow>
            channels a = [\<lparr>channel = EMAIL, enabled = True,
                            config = [(''email'', pref_email p)]\<rparr>])"
proof -
  assume c: "create_alert R m investor opp sc hrs ad stamp t1 t2 = Inr (a, m')"
  have n: "pref_channels p = None \<Longrightarrow>
        create_alert_channels p investor
          = [\<lparr>channel = EMAIL, enabled = True, config = [(''email'', pref_email p)]\<rparr>]" for p
    by (simp add: create_alert_channels_def selected_channels_def Let_def)
  from create_alert_Inr [OF c] have ch: "channels a =
       create_alert_channels
         (dict_get (alert_preferences m) (profile_id investor) empty_preferences) investor"
    by simp
  show ?thesis
    using ch n [of empty_preferences] n
    by (auto simp: dict_get_def empty_preferences_def)
qed

theorem create_alert_default_channel_witness:
  "map_of (alert_preferences (manager_with [])) (profile_id demo_investor) = None
   \<and> channels (fst (projr (demo_create (manager_with []))))
       = [\<lparr>channel = EMAIL, enabled = True, config = [(''email'', None)]\<rparr>]
   \<and> map_of (alert_preferences (manager_with [(''inv1'', email_only_preferences)]))
         (profile_id demo_investor) = Some email_only_preferences
   \<and> pref_channels email_only_preferences = None
   \<and> channels (fst (projr (demo_create (manager_with [(''inv1'', email_only_preferences)]))))
       = [\<lparr>channel = EMAIL, enabled = True, config = [(''email'', Some ''ana@example.com'')]\<rparr>]"
proof -
  let ?m0 = "manager_with []"
  let ?m1 = "manager_with [(''inv1'', email_only_preferences)]"
  from demo_create_Inr [of ?m0] obtain a0 n0 where c0: "demo_create ?m0 = Inr (a0, n0)"
    by blast
  from demo_create_Inr [of ?m1] obtain a1 n1 where c1: "demo_create ?m1 = Inr (a1, n1)"
    by blast
  have p0: "map_of (alert_preferences ?m0) (profile_id demo_investor) = None"
    by (simp add: manager_with_def demo_manager_def)
  have p1: "map_of (alert_preferences ?m1) (profile_id demo_investor) = Some email_only_preferences"
    by (simp add: manager_with_def demo_investor_def)
  have e: "pref_channels email_only_preferences = None"
    "pref_email email_only_preferences = Some ''ana@example.com''"
    by (simp_all add: email_only_preferences_def empty_preferences_def)
  from create_alert_default_channel [OF c0 [unfolded demo_create_def demo_create_for_def]] p0
  have "channels a0 = [\<lparr>channel = EMAIL, enabled = True, config = [(''email'', None)]\<rparr>]"
    by blast
  moreover
  from create_alert_default_channel [OF c1 [unfolded demo_create_def demo_create_for_def]] p1 e
  have "channels a1 = [\<lparr>channel = EMAIL, enabled = True,
                          config = [(''email'', Some ''ana@example.com'')]\<rparr>]"
    by auto
  ultimately show ?thesis using c0 c1 p0 p1 e by simp
qed

end
